theory Spec2Isabelle
  imports Complex_Main "HOL-Library.Sublist"
begin

section \<open>Decoded JSON values and the Python operations applied to them\<close>

text \<open>
  The client receives every event, HTTP response and error body as the value that
  \<^verbatim>\<open>json.loads\<close> returns. A decoded object is an association list read with
  \<^verbatim>\<open>dict.get\<close>; text is kept as its UTF-8 bytes. A float is represented by the
  rational it denotes.
\<close>

datatype json =
    JNull
  | JBool bool
  | JInt int
  | JFloat rat
  | JStr string
  | JList "json list"
  | JObj "(string \<times> json) list"

type_synonym pydict = "(string \<times> json) list"

text \<open>\<^verbatim>\<open>d.get(k)\<close>: the value stored under the key, \<^verbatim>\<open>None\<close> when there is none.\<close>

definition dict_get :: "pydict \<Rightarrow> string \<Rightarrow> json" where
  "dict_get d k = (case map_of d k of None \<Rightarrow> JNull | Some v \<Rightarrow> v)"

text \<open>Python truth value of a decoded JSON value (\<^verbatim>\<open>bool(v)\<close>, \<^verbatim>\<open>if v\<close>, \<^verbatim>\<open>v or w\<close>).\<close>

fun truthy :: "json \<Rightarrow> bool" where
  "truthy JNull = False"
| "truthy (JBool b) = b"
| "truthy (JInt i) = (i \<noteq> 0)"
| "truthy (JFloat q) = (q \<noteq> 0)"
| "truthy (JStr s) = (s \<noteq> [])"
| "truthy (JList xs) = (xs \<noteq> [])"
| "truthy (JObj kvs) = (kvs \<noteq> [])"

definition py_or :: "json \<Rightarrow> json \<Rightarrow> json" where
  "py_or a b = (if truthy a then a else b)"

fun is_dict :: "json \<Rightarrow> bool" where
  "is_dict (JObj kvs) = True"
| "is_dict v = False"

fun is_list :: "json \<Rightarrow> bool" where
  "is_list (JList xs) = True"
| "is_list v = False"

text \<open>
  \<^verbatim>\<open>str(v)\<close> is the identity on text. The rendering of every other value (numbers,
  \<^verbatim>\<open>None\<close>, the \<^verbatim>\<open>repr\<close> of lists and dicts) belongs to the Python runtime
  and is a parameter \<open>str_of\<close> of the model.
\<close>

definition py_str :: "(json \<Rightarrow> string) \<Rightarrow> json \<Rightarrow> string" where
  "py_str str_of v = (case v of JStr s \<Rightarrow> s | _ \<Rightarrow> str_of v)"

text \<open>Decimal rendering of an integer, as an f-string prints a port or a status code.\<close>

definition digit_char :: "nat \<Rightarrow> char" where
  "digit_char d = char_of (48 + d)"

fun dec_nat :: "nat \<Rightarrow> string" where
  "dec_nat n = (if n < 10 then [digit_char n] else dec_nat (n div 10) @ [digit_char (n mod 10)])"

definition dec_int :: "int \<Rightarrow> string" where
  "dec_int i = (if i < 0 then CHR ''-'' # dec_nat (nat (- i)) else dec_nat (nat i))"

section \<open>Fixed message texts of the client (UTF-8)\<close>

definition msg_connect_timeout :: string where
  "msg_connect_timeout =
     [CHR 0xE8, CHR 0xBF, CHR 0x9E, CHR 0xE6, CHR 0x8E, CHR 0xA5] @
     '' SSE '' @
     [CHR 0xE4, CHR 0xBA, CHR 0x8B, CHR 0xE4, CHR 0xBB, CHR 0xB6, CHR 0xE6, CHR 0xB5, CHR 0x81, CHR 0xE8, CHR 0xB6, CHR 0x85, CHR 0xE6, CHR 0x97, CHR 0xB6]"

definition msg_wait_timeout :: string where
  "msg_wait_timeout =
     [CHR 0xE7, CHR 0xAD, CHR 0x89, CHR 0xE5, CHR 0xBE, CHR 0x85] @
     '' SSE '' @
     [CHR 0xE5, CHR 0x93, CHR 0x8D, CHR 0xE5, CHR 0xBA, CHR 0x94, CHR 0xE5, CHR 0xAE, CHR 0x8C, CHR 0xE6, CHR 0x88, CHR 0x90, CHR 0xE8, CHR 0xB6, CHR 0x85, CHR 0xE6, CHR 0x97, CHR 0xB6]"

definition msg_send_failed :: string where
  "msg_send_failed =
     [CHR 0xE5, CHR 0x8F, CHR 0x91, CHR 0xE9, CHR 0x80, CHR 0x81, CHR 0xE6, CHR 0xB6, CHR 0x88, CHR 0xE6, CHR 0x81, CHR 0xAF, CHR 0xE5, CHR 0xA4, CHR 0xB1, CHR 0xE8, CHR 0xB4, CHR 0xA5] @
     '': ''"

definition msg_read_failed :: string where
  "msg_read_failed =
     [CHR 0xE8, CHR 0xAF, CHR 0xBB, CHR 0xE5, CHR 0x8F, CHR 0x96] @
     '' SSE '' @
     [CHR 0xE4, CHR 0xBA, CHR 0x8B, CHR 0xE4, CHR 0xBB, CHR 0xB6, CHR 0xE5, CHR 0xA4, CHR 0xB1, CHR 0xE8, CHR 0xB4, CHR 0xA5] @
     '': ''"

definition msg_server_error :: string where
  "msg_server_error =
     ''SSE '' @
     [CHR 0xE6, CHR 0x9C, CHR 0x8D, CHR 0xE5, CHR 0x8A, CHR 0xA1, CHR 0xE8, CHR 0xBF, CHR 0x94, CHR 0xE5, CHR 0x9B, CHR 0x9E, CHR 0xE9, CHR 0x94, CHR 0x99, CHR 0xE8, CHR 0xAF, CHR 0xAF]"

definition msg_switched_to :: string where
  "msg_switched_to =
     [CHR 0xE4, CHR 0xB8, CHR 0xBB, CHR 0xE4, CHR 0xBB, CHR 0xA3, CHR 0xE7, CHR 0x90, CHR 0x86, CHR 0xE5, CHR 0xB7, CHR 0xB2, CHR 0xE5, CHR 0x88, CHR 0x87, CHR 0xE6, CHR 0x8D, CHR 0xA2, CHR 0xE4, CHR 0xB8, CHR 0xBA] @
     '' ''"

definition msg_switch_ok :: string where
  "msg_switch_ok =
     [CHR 0xE4, CHR 0xB8, CHR 0xBB, CHR 0xE4, CHR 0xBB, CHR 0xA3, CHR 0xE7, CHR 0x90, CHR 0x86, CHR 0xE5, CHR 0x88, CHR 0x87, CHR 0xE6, CHR 0x8D, CHR 0xA2, CHR 0xE6, CHR 0x88, CHR 0x90, CHR 0xE5, CHR 0x8A, CHR 0x9F]"

definition msg_rollback_ok :: string where
  "msg_rollback_ok =
     [CHR 0xE5, CHR 0x9B, CHR 0x9E, CHR 0xE6, CHR 0xBB, CHR 0x9A, CHR 0xE6, CHR 0x89, CHR 0xA7, CHR 0xE8, CHR 0xA1, CHR 0x8C, CHR 0xE6, CHR 0x88, CHR 0x90, CHR 0xE5, CHR 0x8A, CHR 0x9F]"

definition msg_rollback_failed :: string where
  "msg_rollback_failed =
     [CHR 0xE5, CHR 0x9B, CHR 0x9E, CHR 0xE6, CHR 0xBB, CHR 0x9A, CHR 0xE6, CHR 0x89, CHR 0xA7, CHR 0xE8, CHR 0xA1, CHR 0x8C, CHR 0xE5, CHR 0xA4, CHR 0xB1, CHR 0xE8, CHR 0xB4, CHR 0xA5]"

definition msg_cannot_connect :: string where
  "msg_cannot_connect =
     [CHR 0xE6, CHR 0x97, CHR 0xA0, CHR 0xE6, CHR 0xB3, CHR 0x95, CHR 0xE8, CHR 0xBF, CHR 0x9E, CHR 0xE6, CHR 0x8E, CHR 0xA5, CHR 0xE5, CHR 0x88, CHR 0xB0] @
     '' SSE '' @
     [CHR 0xE6, CHR 0x9C, CHR 0x8D, CHR 0xE5, CHR 0x8A, CHR 0xA1, CHR 0xE5, CHR 0x99, CHR 0xA8] @
     '' (''"

definition msg_ensure_started :: string where
  "msg_ensure_started =
     [CHR 0xE8, CHR 0xAF, CHR 0xB7, CHR 0xE7, CHR 0xA1, CHR 0xAE, CHR 0xE4, CHR 0xBF, CHR 0x9D] @
     '' SSE '' @
     [CHR 0xE6, CHR 0x9C, CHR 0x8D, CHR 0xE5, CHR 0x8A, CHR 0xA1, CHR 0xE5, CHR 0x99, CHR 0xA8, CHR 0xE5, CHR 0xB7, CHR 0xB2, CHR 0xE5, CHR 0x90, CHR 0xAF, CHR 0xE5, CHR 0x8A, CHR 0xA8] @
     '': snow --sse --sse-port ''"

definition msg_no_session :: string where
  "msg_no_session =
     [CHR 0xE4, CHR 0xBC, CHR 0x9A, CHR 0xE8, CHR 0xAF, CHR 0x9D, CHR 0xE4, CHR 0xB8, CHR 0x8D, CHR 0xE5, CHR 0xAD, CHR 0x98, CHR 0xE5, CHR 0x9C, CHR 0xA8] @
     '': ''"

definition msg_no_session_or_closed :: string where
  "msg_no_session_or_closed =
     [CHR 0xE4, CHR 0xBC, CHR 0x9A, CHR 0xE8, CHR 0xAF, CHR 0x9D, CHR 0xE4, CHR 0xB8, CHR 0x8D, CHR 0xE5, CHR 0xAD, CHR 0x98, CHR 0xE5, CHR 0x9C, CHR 0xA8, CHR 0xE6, CHR 0x88, CHR 0x96, CHR 0xE8, CHR 0xBF, CHR 0x9E, CHR 0xE6, CHR 0x8E, CHR 0xA5, CHR 0xE5, CHR 0xB7, CHR 0xB2, CHR 0xE5, CHR 0x85, CHR 0xB3, CHR 0xE9, CHR 0x97, CHR 0xAD] @
     '': ''"


section \<open>ClientResult\<close>

text \<open>
  The dataclass \<^verbatim>\<open>ClientResult\<close>. Fields annotated \<^verbatim>\<open>Optional[str]\<close> that the
  client fills from event payloads without conversion (\<open>error_code\<close>, \<open>message\<close>,
  \<open>request_id\<close>) hold whatever JSON value arrived, \<open>JNull\<close> standing for \<^verbatim>\<open>None\<close>.
\<close>

record client_result =
  status :: string
  session_id :: "string option"
  messages :: "json list"
  usage :: pydict
  error_code :: json
  message :: json
  suggestion :: "string option"
  request_id :: json
  request_data :: "pydict option"
  sessions :: "json list option"
  total :: "int option"
  agents :: "json list option"
  current_agent_id :: "string option"
  available_agents :: json
  rollback_points :: "json list option"
  deleted :: "bool option"
  health :: "json option"

text \<open>\<^verbatim>\<open>ClientResult(status=st)\<close> with every other field at its default.\<close>

definition ClientResult :: "string \<Rightarrow> client_result" where
  "ClientResult st =
     \<lparr> status = st, session_id = None, messages = [], usage = [],
       error_code = JNull, message = JNull, suggestion = None,
       request_id = JNull, request_data = None, sessions = None, total = None,
       agents = None, current_agent_id = None, available_agents = JNull,
       rollback_points = None, deleted = None, health = None \<rparr>"

section \<open>Runtime state of one operation\<close>

record pending_request =
  pr_status :: string
  pr_request_id :: json
  pr_request_data :: pydict

record stored_error =
  se_error_code :: json
  se_message :: json
  se_available_agents :: json

record final_event =
  fe_type :: string
  fe_data :: pydict
  fe_request_id :: json

text \<open>
  The mutable attributes of \<^verbatim>\<open>SimpleSnowSSEClient\<close> that the event handlers and the
  result builder touch; the two \<^verbatim>\<open>threading.Event\<close> flags are booleans.
\<close>

record client =
  connected_event :: bool
  completed_event :: bool
  completion_events :: "string set"
  connection_id :: "string option"
  st_session_id :: "string option"
  st_messages :: "json list"
  assistant_final_content :: string
  assistant_stream_content :: string
  st_usage :: pydict
  st_error :: "stored_error option"
  st_pending_request :: "pending_request option"
  st_final_event :: "final_event option"
  agent_list_data :: "pydict option"
  agent_switched_data :: "pydict option"
  rollback_result_data :: "pydict option"
  outbound_image_names :: "string list"

text \<open>\<^verbatim>\<open>_reset_runtime_state\<close>: the state every operation starts from.\<close>

definition reset_runtime_state :: "string option \<Rightarrow> string set \<Rightarrow> string list \<Rightarrow> client" where
  "reset_runtime_state sid evs names =
     \<lparr> connected_event = False, completed_event = False, completion_events = evs,
       connection_id = None, st_session_id = sid, st_messages = [],
       assistant_final_content = [], assistant_stream_content = [],
       st_usage = [], st_error = None, st_pending_request = None,
       st_final_event = None, agent_list_data = None, agent_switched_data = None,
       rollback_result_data = None, outbound_image_names = names \<rparr>"

section \<open>The correlator: event handlers\<close>

text \<open>\<^verbatim>\<open>_mark_complete_if_needed\<close>.\<close>

definition mark_complete_if_needed :: "client \<Rightarrow> string \<Rightarrow> pydict \<Rightarrow> json \<Rightarrow> client" where
  "mark_complete_if_needed s event_type data rid =
     (if event_type \<notin> completion_events s then s
      else s\<lparr> st_final_event := Some \<lparr> fe_type = event_type, fe_data = data, fe_request_id = rid \<rparr>,
              completed_event := True \<rparr>)"

text \<open>The \<^verbatim>\<open>message\<close> branch, entered when the payload is a dict.\<close>

definition handle_message :: "(json \<Rightarrow> string) \<Rightarrow> client \<Rightarrow> pydict \<Rightarrow> client" where
  "handle_message str_of s data =
     (let role = dict_get data ''role'';
          raw_content = dict_get data ''content'';
          content = (if raw_content = JNull then [] else py_str str_of raw_content)
      in if role = JStr ''system'' \<and> truthy (dict_get data ''sessionId'')
         then s\<lparr> st_session_id := Some (py_str str_of (dict_get data ''sessionId'')) \<rparr>
         else if role = JStr ''user'' \<and> content \<noteq> []
         then s\<lparr> st_messages := st_messages s @
                [JObj ([(''role'', JStr ''user''), (''content'', JStr content)] @
                       (if outbound_image_names s \<noteq> []
                        then [(''images'', JList (map JStr (outbound_image_names s)))]
                        else []))] \<rparr>
         else if role = JStr ''assistant''
         then (if truthy (dict_get data ''streaming'')
               then s\<lparr> assistant_stream_content := content \<rparr>
               else s\<lparr> assistant_final_content := content \<rparr>)
         else s)"

text \<open>The \<^verbatim>\<open>error\<close> branch; its payload need not be a dict.\<close>

definition handle_error :: "(json \<Rightarrow> string) \<Rightarrow> client \<Rightarrow> json \<Rightarrow> json \<Rightarrow> client" where
  "handle_error str_of s data rid =
     (let error_message = (case data of JObj d \<Rightarrow> dict_get d ''message'' | _ \<Rightarrow> JStr (py_str str_of data));
          error_code = (case data of JObj d \<Rightarrow> dict_get d ''errorCode'' | _ \<Rightarrow> JNull);
          available_agents = (case data of JObj d \<Rightarrow> dict_get d ''availableAgents'' | _ \<Rightarrow> JNull);
          s1 = s\<lparr> st_error := Some
                 \<lparr> se_error_code = py_or error_code (JStr ''server_error''),
                   se_message = py_or error_message (JStr msg_server_error),
                   se_available_agents = (if is_list available_agents then available_agents else JNull) \<rparr> \<rparr>
      in mark_complete_if_needed s1 ''error'' (case data of JObj d \<Rightarrow> d | _ \<Rightarrow> []) rid)"

text \<open>
  The dispatch of \<^verbatim>\<open>_handle_data_block\<close> on a decoded event object, in the order
  of the source's \<^verbatim>\<open>if\<close> statements. A \<^verbatim>\<open>message\<close> event that matches none of
  the three role cases falls through the remaining tests, none of which can match.
\<close>

definition dispatch_event :: "(json \<Rightarrow> string) \<Rightarrow> client \<Rightarrow> pydict \<Rightarrow> client" where
  "dispatch_event str_of s event =
     (let event_type = dict_get event ''type'';
          raw = dict_get event ''data'';
          data = (if is_dict raw then raw else py_or raw (JObj []));
          rid = dict_get event ''requestId''
      in if event_type = JStr ''connected'' then
           (let cid = (case data of JObj d \<Rightarrow> dict_get d ''connectionId'' | _ \<Rightarrow> JNull)
            in (if truthy cid then s\<lparr> connection_id := Some (py_str str_of cid) \<rparr> else s)
                 \<lparr> connected_event := True \<rparr>)
         else case data of
           JObj d \<Rightarrow>
             (if event_type = JStr ''message'' then handle_message str_of s d
              else if event_type = JStr ''usage'' then s\<lparr> st_usage := d \<rparr>
              else if event_type = JStr ''tool_confirmation_request'' then
                mark_complete_if_needed
                  (s\<lparr> st_pending_request := Some \<lparr> pr_status = ''requires_confirmation'',
                         pr_request_id = rid, pr_request_data = d \<rparr> \<rparr>)
                  ''tool_confirmation_request'' d rid
              else if event_type = JStr ''user_question_request'' then
                mark_complete_if_needed
                  (s\<lparr> st_pending_request := Some \<lparr> pr_status = ''requires_question'',
                         pr_request_id = rid, pr_request_data = d \<rparr> \<rparr>)
                  ''user_question_request'' d rid
              else if event_type = JStr ''agent_list'' then
                mark_complete_if_needed
                  (if is_list (dict_get d ''agents'')
                   then s\<lparr> agent_list_data := Some d, st_pending_request := None \<rparr>
                   else s\<lparr> agent_list_data := Some d \<rparr>)
                  ''agent_list'' d rid
              else if event_type = JStr ''agent_switched'' then
                mark_complete_if_needed (s\<lparr> agent_switched_data := Some d \<rparr>) ''agent_switched'' d rid
              else if event_type = JStr ''rollback_result'' then
                mark_complete_if_needed (s\<lparr> rollback_result_data := Some d \<rparr>) ''rollback_result'' d rid
              else if event_type = JStr ''error'' then handle_error str_of s data rid
              else if event_type = JStr ''complete'' then
                mark_complete_if_needed
                  ((if truthy (dict_get d ''sessionId'')
                    then s\<lparr> st_session_id := Some (py_str str_of (dict_get d ''sessionId'')) \<rparr>
                    else s)
                   \<lparr> st_usage := (case dict_get d ''usage'' of JObj u \<Rightarrow> u | _ \<Rightarrow> st_usage s) \<rparr>)
                  ''complete'' d rid
              else s)
         | _ \<Rightarrow> (if event_type = JStr ''error'' then handle_error str_of s data rid else s))"

text \<open>
  Decoded events as the server sends them: \<^verbatim>\<open>connected\<close> with a connection id,
  a user message, an assistant message with its \<^verbatim>\<open>streaming\<close> flag, and
  \<^verbatim>\<open>complete\<close> with its payload.
\<close>

definition ev_connected :: "string \<Rightarrow> pydict" where
  "ev_connected cid = [(''type'', JStr ''connected''), (''data'', JObj [(''connectionId'', JStr cid)])]"

definition ev_user :: "string \<Rightarrow> pydict" where
  "ev_user c = [(''type'', JStr ''message''), (''data'', JObj [(''role'', JStr ''user''), (''content'', JStr c)])]"

definition ev_assistant :: "string \<Rightarrow> bool \<Rightarrow> pydict" where
  "ev_assistant c streaming =
     [(''type'', JStr ''message''),
      (''data'', JObj [(''role'', JStr ''assistant''), (''content'', JStr c), (''streaming'', JBool streaming)])]"

definition ev_complete :: "pydict \<Rightarrow> pydict" where
  "ev_complete d = [(''type'', JStr ''complete''), (''data'', JObj d)]"

section \<open>The correlator: result construction\<close>

text \<open>\<^verbatim>\<open>str(x) if x is not None else None\<close>.\<close>

definition str_unless_none :: "(json \<Rightarrow> string) \<Rightarrow> json \<Rightarrow> string option" where
  "str_unless_none str_of v = (if v = JNull then None else Some (py_str str_of v))"

text \<open>
  \<^verbatim>\<open>str(data.get("sessionId") or self._session_id)\<close>: a missing session id on both
  sides is rendered as the text of \<^verbatim>\<open>None\<close>.
\<close>

definition rollback_session_id :: "(json \<Rightarrow> string) \<Rightarrow> pydict \<Rightarrow> client \<Rightarrow> string" where
  "rollback_session_id str_of d s =
     (if truthy (dict_get d ''sessionId'') then py_str str_of (dict_get d ''sessionId'')
      else case st_session_id s of None \<Rightarrow> ''None'' | Some x \<Rightarrow> x)"

text \<open>The terminal event recorded by \<^verbatim>\<open>_mark_complete_if_needed\<close> has the given type.\<close>

definition final_event_is :: "client \<Rightarrow> string \<Rightarrow> bool" where
  "final_event_is s ty = (case st_final_event s of None \<Rightarrow> False | Some f \<Rightarrow> fe_type f = ty)"

text \<open>\<^verbatim>\<open>self._assistant_final_content or self._assistant_stream_content\<close>.\<close>

definition assistant_content :: "client \<Rightarrow> string" where
  "assistant_content s =
     (if assistant_final_content s \<noteq> [] then assistant_final_content s
      else assistant_stream_content s)"

text \<open>
  \<^verbatim>\<open>_build_result\<close>, branch by branch in the order of the source. Each of the three
  typed branches is taken when the recorded terminal event has that type and the
  payload of that type is stored (\<^verbatim>\<open>is not None\<close>).
\<close>

definition build_result :: "(json \<Rightarrow> string) \<Rightarrow> client \<Rightarrow> client_result" where
  "build_result str_of s =
     (case st_pending_request s of
        Some p \<Rightarrow>
          (ClientResult (pr_status p))
            \<lparr> session_id := st_session_id s, messages := st_messages s, usage := st_usage s,
              request_id := pr_request_id p, request_data := Some (pr_request_data p) \<rparr>
      | None \<Rightarrow>
     (case st_error s of
        Some e \<Rightarrow>
          (ClientResult ''error'')
            \<lparr> session_id := st_session_id s, messages := st_messages s, usage := st_usage s,
              error_code := se_error_code e, message := se_message e,
              available_agents := se_available_agents e \<rparr>
      | None \<Rightarrow>
     (case (if final_event_is s ''agent_list'' then agent_list_data s else None) of
        Some d \<Rightarrow>
          (ClientResult ''success'')
            \<lparr> session_id := st_session_id s,
              agents := Some (case dict_get d ''agents'' of JList xs \<Rightarrow> xs | _ \<Rightarrow> []),
              current_agent_id := str_unless_none str_of (dict_get d ''currentAgentId'') \<rparr>
      | None \<Rightarrow>
     (case (if final_event_is s ''agent_switched'' then agent_switched_data s else None) of
        Some d \<Rightarrow>
          (ClientResult ''success'')
            \<lparr> session_id := st_session_id s,
              current_agent_id := str_unless_none str_of (dict_get d ''currentAgentId''),
              message := JStr (if truthy (dict_get d ''agentName'')
                               then msg_switched_to @ py_str str_of (dict_get d ''agentName'')
                               else msg_switch_ok) \<rparr>
      | None \<Rightarrow>
     (case (if final_event_is s ''rollback_result'' then rollback_result_data s else None) of
        Some d \<Rightarrow>
          (if truthy (dict_get d ''success'') then
             (ClientResult ''success'')
               \<lparr> session_id := Some (rollback_session_id str_of d s),
                 request_data := Some d, message := JStr msg_rollback_ok \<rparr>
           else
             (ClientResult ''error'')
               \<lparr> session_id := Some (rollback_session_id str_of d s),
                 error_code := JStr ''rollback_failed'',
                 message := JStr (py_str str_of (py_or (dict_get d ''error'') (JStr msg_rollback_failed))),
                 request_data := Some d \<rparr>)
      | None \<Rightarrow>
          (ClientResult ''success'')
            \<lparr> session_id := st_session_id s,
              messages := st_messages s @
                (if assistant_content s \<noteq> []
                 then [JObj [(''role'', JStr ''assistant''), (''content'', JStr (assistant_content s))]]
                 else []),
              usage := st_usage s \<rparr>)))))"

text \<open>
  Every pending interactive request is written by one of the two interactive handlers,
  which tag it \<^verbatim>\<open>requires_confirmation\<close> or \<^verbatim>\<open>requires_question\<close>.
\<close>

definition pending_wf :: "client \<Rightarrow> bool" where
  "pending_wf s =
     (case st_pending_request s of None \<Rightarrow> True
      | Some p \<Rightarrow> pr_status p = ''requires_confirmation'' \<or> pr_status p = ''requires_question'')"

section \<open>Exceptions and error results\<close>

record http_error =
  he_code :: int
  he_reason :: string
  he_body :: string

text \<open>
  The exception classes the operation distinguishes, in the order of its
  \<^verbatim>\<open>except\<close> clauses. \<open>HTTPError\<close> is a subclass of \<open>URLError\<close>; every other
  exception (\<^verbatim>\<open>RuntimeError\<close>, \<^verbatim>\<open>AttributeError\<close>, \<^verbatim>\<open>TypeError\<close>, ...) is
  an \<open>OtherError\<close>. The text carried is \<^verbatim>\<open>str(exc)\<close>.
\<close>

datatype exn =
    TimeoutError string
  | HTTPError http_error
  | URLError string
  | OtherError string

definition exn_str :: "exn \<Rightarrow> string" where
  "exn_str e =
     (case e of
        TimeoutError t \<Rightarrow> t
      | HTTPError h \<Rightarrow> ''HTTP Error '' @ dec_int (he_code h) @ '': '' @ he_reason h
      | URLError t \<Rightarrow> t
      | OtherError t \<Rightarrow> t)"

record config =
  host :: string
  port :: int
  connect_timeout :: rat
  request_timeout :: rat

text \<open>\<^verbatim>\<open>_connection_failed_result\<close>, from the text of the exception.\<close>

definition connection_failed_result :: "config \<Rightarrow> string \<Rightarrow> client_result" where
  "connection_failed_result cfg exc_text =
     (ClientResult ''error'')
       \<lparr> error_code := JStr ''connection_failed'',
         message := JStr (msg_cannot_connect @ host cfg @ '':'' @ dec_int (port cfg) @ ''): '' @ exc_text),
         suggestion := Some (msg_ensure_started @ dec_int (port cfg)) \<rparr>"

text \<open>The type name Python prints in an \<^verbatim>\<open>AttributeError\<close> or \<^verbatim>\<open>TypeError\<close>.\<close>

fun py_type_name :: "json \<Rightarrow> string" where
  "py_type_name JNull = ''NoneType''"
| "py_type_name (JBool b) = ''bool''"
| "py_type_name (JInt i) = ''int''"
| "py_type_name (JFloat q) = ''float''"
| "py_type_name (JStr s) = ''str''"
| "py_type_name (JList xs) = ''list''"
| "py_type_name (JObj kvs) = ''dict''"

text \<open>\<^verbatim>\<open>v.get(...)\<close> on a value that is not a dict.\<close>

definition no_get_attribute :: "json \<Rightarrow> exn" where
  "no_get_attribute v =
     OtherError ([CHR 0x27] @ py_type_name v @ [CHR 0x27] @ '' object has no attribute '' @
                 [CHR 0x27] @ ''get'' @ [CHR 0x27])"

text \<open>
  \<^verbatim>\<open>needle in v\<close> for a text needle: substring test on text, membership on a list,
  key membership on a dict, and a \<^verbatim>\<open>TypeError\<close> on every other value.
\<close>

definition py_contains :: "string \<Rightarrow> json \<Rightarrow> exn + bool" where
  "py_contains needle v =
     (case v of
        JStr s \<Rightarrow> Inr (sublist needle s)
      | JList xs \<Rightarrow> Inr (JStr needle \<in> set xs)
      | JObj kvs \<Rightarrow> Inr (needle \<in> set (map fst kvs))
      | _ \<Rightarrow> Inl (OtherError (''argument of type '' @ [CHR 0x27] @ py_type_name v @ [CHR 0x27] @
                               '' is not iterable'')))"

text \<open>
  \<^verbatim>\<open>_http_error_to_result\<close>. The body is the decoded text of the error response
  (empty when reading it failed); \<open>loads\<close> is \<^verbatim>\<open>json.loads\<close>, \<open>None\<close> on a
  \<^verbatim>\<open>JSONDecodeError\<close>. The membership tests can raise, and nothing in the function
  catches that.
\<close>

definition http_error_to_result ::
  "(json \<Rightarrow> string) \<Rightarrow> (string \<Rightarrow> json option) \<Rightarrow> config \<Rightarrow> http_error \<Rightarrow> exn + client_result" where
  "http_error_to_result str_of loads cfg e =
     (let parsed_body =
            (if he_body e = [] then []
             else case loads (he_body e) of Some (JObj d) \<Rightarrow> d | _ \<Rightarrow> []);
          msg = py_or (dict_get parsed_body ''error'')
                  (py_or (dict_get parsed_body ''message'')
                     (JStr (''HTTP '' @ dec_int (he_code e) @ '': '' @ he_reason e)));
          not_found = (if he_code e = 404 \<or> he_code e = 400
                       then py_contains ''Session not found'' msg else Inr False)
      in case not_found of
           Inl x \<Rightarrow> Inl x
         | Inr True \<Rightarrow>
             Inr ((ClientResult ''error'')
                    \<lparr> error_code := JStr ''session_not_found'',
                      message := JStr ((if he_code e = 404 then msg_no_session
                                        else msg_no_session_or_closed) @ py_str str_of msg) \<rparr>)
         | Inr False \<Rightarrow>
             (case py_contains ''No active connection'' msg of
                Inl x \<Rightarrow> Inl x
              | Inr True \<Rightarrow>
                  Inr ((ClientResult ''error'')
                         \<lparr> error_code := JStr ''connection_failed'', message := msg,
                           suggestion := Some (msg_ensure_started @ dec_int (port cfg)) \<rparr>)
              | Inr False \<Rightarrow>
                  Inr ((ClientResult ''error'')
                         \<lparr> error_code := JStr ''server_error'', message := msg \<rparr>)))"

text \<open>
  \<^verbatim>\<open>health_check\<close>, from the outcome of \<^verbatim>\<open>GET /health\<close>. The first handler
  catches \<open>URLError\<close> and with it its subclass \<open>HTTPError\<close>.
\<close>

definition health_check :: "config \<Rightarrow> exn + json \<Rightarrow> client_result" where
  "health_check cfg response =
     (case response of
        Inr v \<Rightarrow> (ClientResult ''success'') \<lparr> health := Some v \<rparr>
      | Inl (URLError t) \<Rightarrow> connection_failed_result cfg t
      | Inl (HTTPError h) \<Rightarrow> connection_failed_result cfg (exn_str (HTTPError h))
      | Inl e \<Rightarrow> (ClientResult ''error'')
                   \<lparr> error_code := JStr ''unexpected_error'', message := JStr (exn_str e) \<rparr>)"

section \<open>The event stream reader\<close>

text \<open>\<^verbatim>\<open>line.rstrip("\r\n")\<close>.\<close>

definition rstrip_crlf :: "string \<Rightarrow> string" where
  "rstrip_crlf l = rev (dropWhile (\<lambda>c. c = CHR 0x0D \<or> c = CHR 0x0A) (rev l))"

text \<open>
  \<^verbatim>\<open>str.lstrip()\<close> on UTF-8 text: the ASCII white space and the encodings of the
  other code points for which \<^verbatim>\<open>str.isspace\<close> holds.
\<close>

definition ascii_space :: "char \<Rightarrow> bool" where
  "ascii_space c = (let n = (of_char c :: nat) in (9 \<le> n \<and> n \<le> 13) \<or> (28 \<le> n \<and> n \<le> 32))"

definition space2 :: "char \<Rightarrow> char \<Rightarrow> bool" where
  "space2 a b = (a = CHR 0xC2 \<and> (b = CHR 0x85 \<or> b = CHR 0xA0))"

definition space3 :: "char \<Rightarrow> char \<Rightarrow> char \<Rightarrow> bool" where
  "space3 a b c =
     (let n = (of_char c :: nat) in
      (a = CHR 0xE1 \<and> b = CHR 0x9A \<and> c = CHR 0x80) \<or>
      (a = CHR 0xE2 \<and> b = CHR 0x80 \<and> ((128 \<le> n \<and> n \<le> 138) \<or> n = 168 \<or> n = 169 \<or> n = 175)) \<or>
      (a = CHR 0xE2 \<and> b = CHR 0x81 \<and> c = CHR 0x9F) \<or>
      (a = CHR 0xE3 \<and> b = CHR 0x80 \<and> c = CHR 0x80))"

fun lstrip :: "string \<Rightarrow> string" where
  "lstrip (a # b # c # l) =
     (if ascii_space a then lstrip (b # c # l)
      else if space2 a b then lstrip (c # l)
      else if space3 a b c then lstrip l
      else a # b # c # l)"
| "lstrip [a, b] =
     (if ascii_space a then lstrip [b] else if space2 a b then [] else [a, b])"
| "lstrip [a] = (if ascii_space a then [] else [a])"
| "lstrip [] = []"

text \<open>\<^verbatim>\<open>"\n".join(data_lines)\<close>.\<close>

fun join_lines :: "string list \<Rightarrow> string" where
  "join_lines [] = []"
| "join_lines [l] = l"
| "join_lines (l # ls) = l @ [CHR 0x0A] @ join_lines ls"

text \<open>
  \<^verbatim>\<open>_handle_data_block\<close>: a block that does not parse is ignored; a block that
  parses to something other than an object raises at \<^verbatim>\<open>event.get\<close>.
\<close>

definition handle_data_block ::
  "(json \<Rightarrow> string) \<Rightarrow> (string \<Rightarrow> json option) \<Rightarrow> client \<Rightarrow> string \<Rightarrow> exn + client" where
  "handle_data_block str_of loads s data_text =
     (case loads data_text of
        None \<Rightarrow> Inr s
      | Some (JObj event) \<Rightarrow> Inr (dispatch_event str_of s event)
      | Some v \<Rightarrow> Inl (no_get_attribute v))"

text \<open>
  What iterating the streaming response yields next: a decoded line, a read failure
  (with the text of the exception), or the end of the stream.
\<close>

datatype stream_item = Line string | ReadFailure string | EndOfStream

record reader =
  data_lines :: "string list"
  alive :: bool

definition new_reader :: reader where
  "new_reader = \<lparr> data_lines = [], alive = True \<rparr>"

text \<open>The \<^verbatim>\<open>except\<close> clause of \<^verbatim>\<open>_event_reader_loop\<close>.\<close>

definition reader_failure :: "client \<Rightarrow> string \<Rightarrow> client" where
  "reader_failure s exc_text =
     (if completed_event s then s
      else s\<lparr> st_error := Some \<lparr> se_error_code = JStr ''event_stream_error'',
                                  se_message = JStr (msg_read_failed @ exc_text),
                                  se_available_agents = JNull \<rparr>,
              completed_event := True \<rparr>)"

text \<open>
  One turn of \<^verbatim>\<open>_event_reader_loop\<close> on the next item of the stream, from the
  shared client state and the reader's own buffer. The client state may have been
  changed by the other thread between two turns. A reader that has left its loop
  does nothing.
\<close>

definition reader_step ::
  "(json \<Rightarrow> string) \<Rightarrow> (string \<Rightarrow> json option) \<Rightarrow> client \<times> reader \<Rightarrow> stream_item \<Rightarrow> client \<times> reader" where
  "reader_step str_of loads w item =
     (let s = fst w; r = snd w in
      if \<not> alive r then w
      else case item of
        EndOfStream \<Rightarrow> (s, r\<lparr> alive := False \<rparr>)
      | ReadFailure t \<Rightarrow> (reader_failure s t, r\<lparr> alive := False \<rparr>)
      | Line raw \<Rightarrow>
          (let line = rstrip_crlf raw in
           if take 5 line = ''data:'' then (s, r\<lparr> data_lines := data_lines r @ [lstrip (drop 5 line)] \<rparr>)
           else if line = [] then
             (if data_lines r \<noteq> [] then
                (case handle_data_block str_of loads s (join_lines (data_lines r)) of
                   Inl e \<Rightarrow> (reader_failure s (exn_str e), r\<lparr> alive := False \<rparr>)
                 | Inr s' \<Rightarrow> (s', \<lparr> data_lines = [], alive = \<not> completed_event s' \<rparr>))
              else (s, r\<lparr> alive := \<not> completed_event s \<rparr>))
           else w))"

text \<open>The reader consuming a run of items while the other thread waits.\<close>

definition feed ::
  "(json \<Rightarrow> string) \<Rightarrow> (string \<Rightarrow> json option) \<Rightarrow> client \<times> reader \<Rightarrow> stream_item list \<Rightarrow> client \<times> reader" where
  "feed str_of loads w items = foldl (reader_step str_of loads) w items"

section \<open>The operation orchestrator\<close>

text \<open>
  Everything outside the client that one run of \<^verbatim>\<open>_run_message_operation\<close>
  observes: the outcome of opening the stream (an exception, or whether the response
  exposes its socket), the items the reader consumes while the orchestrator waits
  for the \<^verbatim>\<open>connected\<close> signal and while it binds or creates the session, the
  outcome of that session call and of \<^verbatim>\<open>POST /message\<close>, the clock, and one
  \<open>tick\<close> per turn of the polling loop: the clock reading, the items the reader
  consumes during that turn, and whether the POST thread has finished when the
  loop asks.
\<close>

record tick =
  now :: rat
  arrived :: "stream_item list"
  post_done :: bool

record env =
  py_str_of :: "json \<Rightarrow> string"
  json_loads :: "string \<Rightarrow> json option"
  open_stream :: "exn + bool"
  during_connect :: "stream_item list"
  session_response :: "exn + json"
  during_session_call :: "stream_item list"
  post_response :: "exn + json"
  clock_start :: rat
  ticks :: "tick list"
  post_done_after :: bool
  before_result :: "stream_item list"

text \<open>The effects of the operation on the outside, in the order they happen.\<close>

datatype action =
    OpenEventStream
  | StartReader
  | SessionLoad pydict
  | SessionCreate pydict
  | PostMessage pydict
  | SetCompleted
  | CloseSocket
  | JoinReader
  | CloseResponse

text \<open>\<^verbatim>\<open>payload[k] = v\<close>.\<close>

definition dict_set :: "pydict \<Rightarrow> string \<Rightarrow> json \<Rightarrow> pydict" where
  "dict_set d k v = (if k \<in> set (map fst d) then map (\<lambda>(k', v'). if k' = k then (k', v) else (k', v')) d
                     else d @ [(k, v)])"

text \<open>\<^verbatim>\<open>if not self._connection_id\<close>.\<close>

definition no_connection_id :: "client \<Rightarrow> bool" where
  "no_connection_id s = (case connection_id s of None \<Rightarrow> True | Some c \<Rightarrow> c = [])"

text \<open>
  The part of \<^verbatim>\<open>_bind_session_to_connection\<close> and
  \<^verbatim>\<open>_ensure_session_for_connection\<close> that reads the response: the new session
  id when the response is a success carrying \<^verbatim>\<open>session.id\<close>. A response that
  is not a dict raises at \<^verbatim>\<open>response.get\<close>, outside the \<^verbatim>\<open>try\<close>.
\<close>

definition session_id_of_response :: "(json \<Rightarrow> string) \<Rightarrow> json \<Rightarrow> exn + string option" where
  "session_id_of_response str_of response =
     (case response of
        JObj r \<Rightarrow>
          (if \<not> truthy (dict_get r ''success'') then Inr None
           else case dict_get r ''session'' of
                  JObj sd \<Rightarrow> (if truthy (dict_get sd ''id'')
                              then Inr (Some (py_str str_of (dict_get sd ''id''))) else Inr None)
                | _ \<Rightarrow> Inr None)
      | v \<Rightarrow> Inl (no_get_attribute v))"

text \<open>
  \<^verbatim>\<open>_bind_session_to_connection\<close>: the new state and the request sent, or the
  exception with the state it left.
\<close>

definition bind_session_to_connection ::
  "env \<Rightarrow> client \<times> reader \<Rightarrow> string \<Rightarrow> (exn + unit) \<times> (client \<times> reader) \<times> action list" where
  "bind_session_to_connection ev w sid =
     (if no_connection_id (fst w) \<or> sid = [] then (Inr (), w, [])
      else
        (let cid = (case connection_id (fst w) of Some c \<Rightarrow> c | None \<Rightarrow> []);
             acts = [SessionLoad [(''sessionId'', JStr sid), (''connectionId'', JStr cid)]];
             w1 = feed (py_str_of ev) (json_loads ev) w (during_session_call ev)
         in case session_response ev of
              Inl e \<Rightarrow> (Inr (), w1, acts)
            | Inr response \<Rightarrow>
                (case session_id_of_response (py_str_of ev) response of
                   Inl x \<Rightarrow> (Inl x, w1, acts)
                 | Inr None \<Rightarrow> (Inr (), w1, acts)
                 | Inr (Some new_id) \<Rightarrow>
                     (Inr (), ((fst w1)\<lparr> st_session_id := Some new_id \<rparr>, snd w1), acts))))"

text \<open>\<^verbatim>\<open>_ensure_session_for_connection\<close>, returning the session id it created.\<close>

definition ensure_session_for_connection ::
  "env \<Rightarrow> client \<times> reader \<Rightarrow> (exn + string option) \<times> (client \<times> reader) \<times> action list" where
  "ensure_session_for_connection ev w =
     (if no_connection_id (fst w) then (Inr None, w, [])
      else
        (let cid = (case connection_id (fst w) of Some c \<Rightarrow> c | None \<Rightarrow> []);
             acts = [SessionCreate [(''connectionId'', JStr cid)]];
             w1 = feed (py_str_of ev) (json_loads ev) w (during_session_call ev)
         in case session_response ev of
              Inl e \<Rightarrow> (Inr None, w1, acts)
            | Inr response \<Rightarrow>
                (case session_id_of_response (py_str_of ev) response of
                   Inl x \<Rightarrow> (Inl x, w1, acts)
                 | Inr None \<Rightarrow> (Inr None, w1, acts)
                 | Inr (Some new_id) \<Rightarrow>
                     (Inr (Some new_id), ((fst w1)\<lparr> st_session_id := Some new_id \<rparr>, snd w1), acts))))"

text \<open>
  The check of the POST outcome that the loop and the code after it both make:
  the exception to raise, if any.
\<close>

definition check_post_response :: "(json \<Rightarrow> string) \<Rightarrow> exn + json \<Rightarrow> exn option" where
  "check_post_response str_of outcome =
     (case outcome of
        Inl e \<Rightarrow> Some e
      | Inr (JObj r) \<Rightarrow>
          (if \<not> truthy (dict_get r ''success'')
           then Some (OtherError (msg_send_failed @ py_str str_of (JObj r))) else None)
      | Inr v \<Rightarrow> None)"

text \<open>
  The \<^verbatim>\<open>while True\<close> loop, one tick per turn. It ends by \<^verbatim>\<open>break\<close> or by an
  exception; \<open>None\<close> says that the ticks given ran out before it ended. It returns
  the state, whether the POST response has been checked, and the number of turns
  that went past the deadline test.
\<close>

datatype loop_exit = Break | Raised exn

fun poll_loop ::
  "env \<Rightarrow> bool \<Rightarrow> rat \<Rightarrow> client \<times> reader \<Rightarrow> bool \<Rightarrow> nat \<Rightarrow> tick list \<Rightarrow>
   (loop_exit \<times> (client \<times> reader) \<times> bool \<times> nat) option" where
  "poll_loop ev wait_sse deadline w checked n [] = None"
| "poll_loop ev wait_sse deadline w checked n (t # ts) =
     (if deadline - now t \<le> 0 then Some (Raised (TimeoutError msg_wait_timeout), w, checked, n)
      else
        (let w1 = feed (py_str_of ev) (json_loads ev) w (arrived t) in
         if wait_sse \<and> completed_event (fst w1) then Some (Break, w1, checked, Suc n)
         else if post_done t \<and> \<not> checked then
           (case check_post_response (py_str_of ev) (post_response ev) of
              Some e \<Rightarrow> Some (Raised e, w1, True, Suc n)
            | None \<Rightarrow> (if \<not> wait_sse then Some (Break, w1, True, Suc n)
                       else poll_loop ev wait_sse deadline w1 True (Suc n) ts))
         else poll_loop ev wait_sse deadline w1 checked (Suc n) ts))"

text \<open>
  What the \<^verbatim>\<open>try\<close> block of \<^verbatim>\<open>_run_message_operation\<close> leaves behind: the
  result it returns or the exception it raises, the shared state, the effects so
  far, the turns of the polling loop, and which of the stream response, its socket
  and the reader thread exist.
\<close>

record attempt =
  at_outcome :: "exn + client_result"
  at_world :: "client \<times> reader"
  at_actions :: "action list"
  at_polls :: nat
  at_response :: bool
  at_sock :: bool
  at_thread :: bool

text \<open>An attempt that ended before the POST thread was started.\<close>

definition ended_early ::
  "exn \<Rightarrow> client \<times> reader \<Rightarrow> action list \<Rightarrow> bool \<Rightarrow> bool \<Rightarrow> attempt" where
  "ended_early e w acts opened has_sock =
     \<lparr> at_outcome = Inl e, at_world = w, at_actions = acts, at_polls = 0,
       at_response = opened, at_sock = has_sock, at_thread = opened \<rparr>"

text \<open>
  The \<^verbatim>\<open>try\<close> block up to the start of the POST thread: open the stream, start
  the reader, wait for \<^verbatim>\<open>connected\<close>, bind the given session or create one.
  Either the attempt ends there with an exception, or the command is ready to be
  posted: the payload, the state, the effects so far, and whether the stream
  exposes its socket.
\<close>

definition prepare_operation ::
  "env \<Rightarrow> pydict \<Rightarrow> string option \<Rightarrow> string set \<Rightarrow> bool \<Rightarrow> string list \<Rightarrow>
   attempt + (pydict \<times> (client \<times> reader) \<times> action list \<times> bool)" where
  "prepare_operation ev payload sid completion ensure_session names =
     (let w0 = (reset_runtime_state sid completion names, new_reader) in
      case open_stream ev of
        Inl e \<Rightarrow> Inl (ended_early e w0 [OpenEventStream] False False)
      | Inr has_sock \<Rightarrow>
          (let acts0 = [OpenEventStream, StartReader];
               w1 = feed (py_str_of ev) (json_loads ev) w0 (during_connect ev)
           in if \<not> connected_event (fst w1) then
                Inl (ended_early (TimeoutError msg_connect_timeout) w1 acts0 True has_sock)
              else if sid \<noteq> None \<and> sid \<noteq> Some [] then
                (let given = (case sid of Some g \<Rightarrow> g | None \<Rightarrow> []) in
                 case bind_session_to_connection ev w1 given of
                   (Inl x, w2, acts) \<Rightarrow> Inl (ended_early x w2 (acts0 @ acts) True has_sock)
                 | (Inr u, w2, acts) \<Rightarrow>
                     Inr (dict_set payload ''sessionId'' (JStr given), w2, acts0 @ acts, has_sock))
              else if ensure_session then
                (case ensure_session_for_connection ev w1 of
                   (Inl x, w2, acts) \<Rightarrow> Inl (ended_early x w2 (acts0 @ acts) True has_sock)
                 | (Inr created, w2, acts) \<Rightarrow>
                     Inr ((case created of
                             Some new_id \<Rightarrow>
                               (if new_id \<noteq> [] then dict_set payload ''sessionId'' (JStr new_id)
                                else payload)
                           | None \<Rightarrow> payload),
                          w2, acts0 @ acts, has_sock))
              else Inr (payload, w1, acts0, has_sock)))"

text \<open>
  The rest of the \<^verbatim>\<open>try\<close> block: start the POST thread, poll, check the POST
  response if that is still to do, build the result.
\<close>

definition post_and_wait ::
  "config \<Rightarrow> env \<Rightarrow> bool \<Rightarrow> pydict \<times> (client \<times> reader) \<times> action list \<times> bool \<Rightarrow> attempt option" where
  "post_and_wait cfg ev wait_sse ready =
     (case ready of (payload, w, acts, has_sock) \<Rightarrow>
      (let acts1 = acts @ [PostMessage payload];
           deadline = clock_start ev + request_timeout cfg
       in case poll_loop ev wait_sse deadline w False 0 (ticks ev) of
            None \<Rightarrow> None
          | Some (Raised e, w1, checked, n) \<Rightarrow>
              Some \<lparr> at_outcome = Inl e, at_world = w1, at_actions = acts1, at_polls = n,
                     at_response = True, at_sock = has_sock, at_thread = True \<rparr>
          | Some (Break, w1, checked, n) \<Rightarrow>
              (case (if post_done_after ev \<and> \<not> checked
                     then check_post_response (py_str_of ev) (post_response ev) else None) of
                 Some e \<Rightarrow>
                   Some \<lparr> at_outcome = Inl e, at_world = w1, at_actions = acts1, at_polls = n,
                          at_response = True, at_sock = has_sock, at_thread = True \<rparr>
               | None \<Rightarrow>
                   (let w2 = feed (py_str_of ev) (json_loads ev) w1 (before_result ev) in
                    Some \<lparr> at_outcome = Inr (build_result (py_str_of ev) (fst w2)), at_world = w2,
                           at_actions = acts1, at_polls = n,
                           at_response = True, at_sock = has_sock, at_thread = True \<rparr>))))"

text \<open>The whole \<^verbatim>\<open>try\<close> block.\<close>

definition attempt_operation ::
  "config \<Rightarrow> env \<Rightarrow> pydict \<Rightarrow> string option \<Rightarrow> string set \<Rightarrow> bool \<Rightarrow> string list \<Rightarrow> bool \<Rightarrow>
   attempt option" where
  "attempt_operation cfg ev payload sid completion ensure_session names wait_sse =
     (case prepare_operation ev payload sid completion ensure_session names of
        Inl a \<Rightarrow> Some a
      | Inr ready \<Rightarrow> post_and_wait cfg ev wait_sse ready)"

text \<open>The \<^verbatim>\<open>except\<close> clauses, in their order; the first one can raise again.\<close>

definition handle_exception :: "config \<Rightarrow> env \<Rightarrow> client \<Rightarrow> exn \<Rightarrow> exn + client_result" where
  "handle_exception cfg ev s e =
     (case e of
        TimeoutError t \<Rightarrow>
          Inr ((ClientResult ''error'')
                 \<lparr> session_id := st_session_id s, error_code := JStr ''timeout'', message := JStr t \<rparr>)
      | HTTPError h \<Rightarrow> http_error_to_result (py_str_of ev) (json_loads ev) cfg h
      | URLError t \<Rightarrow> Inr (connection_failed_result cfg t)
      | OtherError t \<Rightarrow>
          Inr ((ClientResult ''error'')
                 \<lparr> session_id := st_session_id s, error_code := JStr ''unexpected_error'',
                   message := JStr t \<rparr>))"

text \<open>
  \<^verbatim>\<open>_close_event_stream\<close>: the completion signal is set, the socket closed when
  there is one, the reader joined when it is still in its loop, the response closed
  when there is one.
\<close>

definition close_event_stream ::
  "client \<times> reader \<Rightarrow> bool \<Rightarrow> bool \<Rightarrow> bool \<Rightarrow> (client \<times> reader) \<times> action list" where
  "close_event_stream w has_response has_sock has_thread =
     (((fst w)\<lparr> completed_event := True \<rparr>, snd w),
      [SetCompleted] @
      (if has_sock then [CloseSocket] else []) @
      (if has_thread \<and> alive (snd w) then [JoinReader] else []) @
      (if has_response then [CloseResponse] else []))"

text \<open>
  What the caller of \<^verbatim>\<open>_run_message_operation\<close> gets: the result returned or the
  exception that escaped, with the effects of the whole call, \<^verbatim>\<open>finally\<close> clause
  included, and the state the client is left in.
\<close>

record completed_call =
  returned :: "exn + client_result"
  effects :: "action list"
  polls :: nat
  left_state :: "client \<times> reader"

definition run_message_operation ::
  "config \<Rightarrow> env \<Rightarrow> pydict \<Rightarrow> string option \<Rightarrow> string set \<Rightarrow> bool \<Rightarrow> string list \<Rightarrow> bool \<Rightarrow>
   completed_call option" where
  "run_message_operation cfg ev payload sid completion ensure_session names wait_sse =
     (case attempt_operation cfg ev payload sid completion ensure_session names wait_sse of
        None \<Rightarrow> None
      | Some a \<Rightarrow>
          (let outcome = (case at_outcome a of
                            Inr r \<Rightarrow> Inr r
                          | Inl e \<Rightarrow> handle_exception cfg ev (fst (at_world a)) e);
               closed = close_event_stream (at_world a) (at_response a) (at_sock a) (at_thread a)
           in Some \<lparr> returned = outcome, effects = at_actions a @ snd closed,
                     polls = at_polls a, left_state = fst closed \<rparr>))"

section \<open>The public commands that run a message operation\<close>

definition interactive_events :: "string set" where
  "interactive_events = {''complete'', ''tool_confirmation_request'', ''user_question_request'', ''error''}"

text \<open>The payloads the commands build.\<close>

definition chat_payload :: "string \<Rightarrow> bool \<Rightarrow> pydict" where
  "chat_payload content yolo_mode =
     [(''type'', JStr ''chat''), (''content'', JStr content), (''yoloMode'', JBool yolo_mode)]"

definition confirmation_payload :: "string \<Rightarrow> bool \<Rightarrow> pydict" where
  "confirmation_payload rid approve =
     [(''type'', JStr ''tool_confirmation_response''), (''requestId'', JStr rid),
      (''response'', JStr (if approve then ''approve'' else ''reject''))]"

definition answer_payload :: "string \<Rightarrow> string \<Rightarrow> pydict" where
  "answer_payload rid answer_text =
     [(''type'', JStr ''user_question_response''), (''requestId'', JStr rid),
      (''response'', JStr answer_text)]"

definition switch_agent_payload :: "string \<Rightarrow> pydict" where
  "switch_agent_payload agent_id = [(''type'', JStr ''switch_agent''), (''agentId'', JStr agent_id)]"

definition rollback_payload :: "int \<Rightarrow> bool \<Rightarrow> string list \<Rightarrow> pydict" where
  "rollback_payload message_index rollback_files selected_files =
     [(''type'', JStr ''rollback''),
      (''rollback'', JObj ([(''messageIndex'', JInt message_index),
                           (''rollbackFiles'', JBool rollback_files)] @
                          (if selected_files \<noteq> []
                           then [(''selectedFiles'', JList (map JStr selected_files))] else [])))]"

text \<open>
  \<^verbatim>\<open>send_chat\<close>. The image payload and the base names of the image paths are
  computed by the file-reading helpers, which are given: a text for the
  \<^verbatim>\<open>FileNotFoundError\<close> or \<^verbatim>\<open>ValueError\<close>, or the payload list and the names.
  With bad images the command returns its error before any operation runs.
\<close>

definition send_chat ::
  "config \<Rightarrow> env \<Rightarrow> string \<Rightarrow> string option \<Rightarrow> string list \<Rightarrow> (string + json list \<times> string list) \<Rightarrow> bool \<Rightarrow>
   client_result + completed_call option" where
  "send_chat cfg ev content sid images built yolo_mode =
     (if images \<noteq> [] then
        (case built of
           Inl t \<Rightarrow>
             Inl ((ClientResult ''error'')
                    \<lparr> session_id := sid, error_code := JStr ''invalid_args'', message := JStr t \<rparr>)
         | Inr (imgs, names) \<Rightarrow>
             Inr (run_message_operation cfg ev
                    (chat_payload content yolo_mode @ [(''images'', JList imgs)]) sid
                    interactive_events True names True))
      else Inr (run_message_operation cfg ev (chat_payload content yolo_mode) sid
                  interactive_events True [] True))"

text \<open>\<^verbatim>\<open>send_tool_confirmation\<close>, with \<^verbatim>\<open>wait_sse_completion=False\<close>.\<close>

definition send_tool_confirmation ::
  "config \<Rightarrow> env \<Rightarrow> string \<Rightarrow> string \<Rightarrow> bool \<Rightarrow> completed_call option" where
  "send_tool_confirmation cfg ev sid rid approve =
     run_message_operation cfg ev (confirmation_payload rid approve)
       (Some sid) interactive_events False [] False"

text \<open>\<^verbatim>\<open>send_question_answer\<close>, with \<^verbatim>\<open>wait_sse_completion=False\<close>.\<close>

definition send_question_answer ::
  "config \<Rightarrow> env \<Rightarrow> string \<Rightarrow> string \<Rightarrow> string \<Rightarrow> completed_call option" where
  "send_question_answer cfg ev sid rid answer_text =
     run_message_operation cfg ev (answer_payload rid answer_text)
       (Some sid) interactive_events False [] False"

text \<open>\<^verbatim>\<open>switch_agent\<close>.\<close>

definition switch_agent :: "config \<Rightarrow> env \<Rightarrow> string \<Rightarrow> string option \<Rightarrow> completed_call option" where
  "switch_agent cfg ev agent_id sid =
     run_message_operation cfg ev (switch_agent_payload agent_id)
       sid {''agent_switched'', ''error''} True [] True"

text \<open>\<^verbatim>\<open>rollback_to\<close>.\<close>

definition rollback_to ::
  "config \<Rightarrow> env \<Rightarrow> string \<Rightarrow> int \<Rightarrow> bool \<Rightarrow> string list \<Rightarrow> completed_call option" where
  "rollback_to cfg ev sid message_index rollback_files selected_files =
     run_message_operation cfg ev (rollback_payload message_index rollback_files selected_files)
       (Some sid) {''rollback_result'', ''error''} False [] True"

section \<open>Observations on a run\<close>

text \<open>The shared state after the reader has consumed what arrived during the given ticks.\<close>

definition after_ticks :: "env \<Rightarrow> client \<times> reader \<Rightarrow> tick list \<Rightarrow> client \<times> reader" where
  "after_ticks ev w ts = foldl (\<lambda>w' t. feed (py_str_of ev) (json_loads ev) w' (arrived t)) w ts"

text \<open>The effects that come before the POST thread is started.\<close>

definition setup_action :: "action \<Rightarrow> bool" where
  "setup_action a = (case a of OpenEventStream \<Rightarrow> True | StartReader \<Rightarrow> True
                     | SessionLoad d \<Rightarrow> True | SessionCreate d \<Rightarrow> True | _ \<Rightarrow> False)"

section \<open>A sample exchange\<close>

text \<open>
  A concrete configuration and environment on which the definitions can be run:
  the command-line defaults, a server whose stream opens, and the few texts
  \<^verbatim>\<open>json.loads\<close> is asked to decode in it. The items that arrive before the
  \<^verbatim>\<open>connected\<close> wait ends, the outcome of \<^verbatim>\<open>POST /message\<close> and the ticks of
  the polling loop are left open.
\<close>

definition sample_config :: config where
  "sample_config = \<lparr> host = ''localhost'', port = 9001, connect_timeout = 30, request_timeout = 3600 \<rparr>"

definition connected_text :: string where
  "connected_text = ''{'' @ [CHR 0x22] @ ''type'' @ [CHR 0x22] @ '': '' @ [CHR 0x22] @ ''connected'' @ [CHR 0x22] @ ''}''"

definition error_true_text :: string where
  "error_true_text = ''{'' @ [CHR 0x22] @ ''error'' @ [CHR 0x22] @ '': true}''"

definition sample_loads :: "string \<Rightarrow> json option" where
  "sample_loads b =
     (if b = connected_text then Some (JObj [(''type'', JStr ''connected'')])
      else if b = error_true_text then Some (JObj [(''error'', JBool True)])
      else None)"

definition sample_str_of :: "json \<Rightarrow> string" where
  "sample_str_of v = (case v of JBool True \<Rightarrow> ''True'' | JBool False \<Rightarrow> ''False''
                      | JNull \<Rightarrow> ''None'' | JInt i \<Rightarrow> dec_int i | _ \<Rightarrow> ''...'')"

definition connected_lines :: "stream_item list" where
  "connected_lines = [Line (''data: '' @ connected_text @ [CHR 0x0A]), Line [CHR 0x0A]]"

definition sample_env :: "stream_item list \<Rightarrow> exn + json \<Rightarrow> tick list \<Rightarrow> env" where
  "sample_env first_items post ts =
     \<lparr> py_str_of = sample_str_of, json_loads = sample_loads, open_stream = Inr True,
       during_connect = first_items, session_response = Inl (URLError ''unused''),
       during_session_call = [], post_response = post, clock_start = 0, ticks = ts,
       post_done_after = False, before_result = [] \<rparr>"

section \<open>Properties of the correlator\<close>

lemma status_ClientResult [simp]: "status (ClientResult st) = st"
  by (simp add: ClientResult_def)

lemma pending_wf_reset: "pending_wf (reset_runtime_state sid evs names)"
  by (simp add: pending_wf_def reset_runtime_state_def)

lemma pending_mark [simp]:
  "st_pending_request (mark_complete_if_needed s ty d rid) = st_pending_request s"
  by (simp add: mark_complete_if_needed_def)

lemma pending_handle_message [simp]:
  "st_pending_request (handle_message str_of s d) = st_pending_request s"
  by (simp add: handle_message_def Let_def)

lemma pending_handle_error [simp]:
  "st_pending_request (handle_error str_of s d rid) = st_pending_request s"
  by (simp add: handle_error_def Let_def)

lemma pending_wf_dispatch:
  "pending_wf s \<Longrightarrow> pending_wf (dispatch_event str_of s event)"
proof (cases "if is_dict (dict_get event ''data'') then dict_get event ''data''
              else py_or (dict_get event ''data'') (JObj [])")
  case (JObj d)
  assume "pending_wf s"
  then show ?thesis using JObj
    by (simp add: pending_wf_def dispatch_event_def Let_def)
qed (simp_all add: pending_wf_def dispatch_event_def Let_def)

subsection \<open>The branches of the result builder\<close>







lemma build_result_generic:
  "st_pending_request s = None \<Longrightarrow> st_error s = None \<Longrightarrow>
   \<not> (final_event_is s ''agent_list'' \<and> agent_list_data s \<noteq> None) \<Longrightarrow>
   \<not> (final_event_is s ''agent_switched'' \<and> agent_switched_data s \<noteq> None) \<Longrightarrow>
   \<not> (final_event_is s ''rollback_result'' \<and> rollback_result_data s \<noteq> None) \<Longrightarrow>
   build_result str_of s =
     (ClientResult ''success'')
       \<lparr> session_id := st_session_id s,
         messages := st_messages s @
           (if assistant_content s \<noteq> []
            then [JObj [(''role'', JStr ''assistant''), (''content'', JStr (assistant_content s))]]
            else []),
         usage := st_usage s \<rparr>"
  by (cases "agent_list_data s"; cases "agent_switched_data s"; cases "rollback_result_data s")
     (simp_all add: build_result_def)




subsection \<open>Single events\<close>

lemma mark_complete_terminal:
  "ty \<in> completion_events s \<Longrightarrow>
   mark_complete_if_needed s ty d rid =
     s\<lparr> st_final_event := Some \<lparr> fe_type = ty, fe_data = d, fe_request_id = rid \<rparr>,
        completed_event := True \<rparr>"
  by (simp add: mark_complete_if_needed_def)

lemma dispatch_connected_event:
  assumes "dict_get event ''type'' = JStr ''connected''"
    and "dict_get event ''data'' = JObj d"
  shows "dispatch_event str_of s event =
     (if truthy (dict_get d ''connectionId'')
      then s\<lparr> connection_id := Some (py_str str_of (dict_get d ''connectionId'')) \<rparr> else s)
       \<lparr> connected_event := True \<rparr>"
  using assms by (simp add: dispatch_event_def Let_def)

lemma dispatch_message_event:
  assumes "dict_get event ''type'' = JStr ''message''"
    and "dict_get event ''data'' = JObj d"
  shows "dispatch_event str_of s event = handle_message str_of s d"
  using assms by (simp add: dispatch_event_def Let_def)

lemma dispatch_complete_event:
  assumes "dict_get event ''type'' = JStr ''complete''"
    and "dict_get event ''data'' = JObj d"
  shows "dispatch_event str_of s event =
     mark_complete_if_needed
       ((if truthy (dict_get d ''sessionId'')
         then s\<lparr> st_session_id := Some (py_str str_of (dict_get d ''sessionId'')) \<rparr> else s)
        \<lparr> st_usage := (case dict_get d ''usage'' of JObj u \<Rightarrow> u | _ \<Rightarrow> st_usage s) \<rparr>)
       ''complete'' d (dict_get event ''requestId'')"
  using assms by (simp add: dispatch_event_def Let_def)

lemma ev_fields:
  "dict_get (ev_connected cid) ''type'' = JStr ''connected''"
  "dict_get (ev_connected cid) ''data'' = JObj [(''connectionId'', JStr cid)]"
  "dict_get (ev_user c) ''type'' = JStr ''message''"
  "dict_get (ev_user c) ''data'' = JObj [(''role'', JStr ''user''), (''content'', JStr c)]"
  "dict_get (ev_assistant c streaming) ''type'' = JStr ''message''"
  "dict_get (ev_assistant c streaming) ''data'' =
     JObj [(''role'', JStr ''assistant''), (''content'', JStr c), (''streaming'', JBool streaming)]"
  "dict_get (ev_complete d) ''type'' = JStr ''complete''"
  "dict_get (ev_complete d) ''data'' = JObj d"
  "dict_get (ev_complete d) ''requestId'' = JNull"
  by (simp_all add: dict_get_def ev_connected_def ev_user_def ev_assistant_def ev_complete_def)

lemma dispatch_connected:
  "dispatch_event str_of s (ev_connected cid) =
     (if cid = [] then s else s\<lparr> connection_id := Some cid \<rparr>) \<lparr> connected_event := True \<rparr>"
  by (simp add: dispatch_connected_event [OF ev_fields(1) ev_fields(2)] dict_get_def py_str_def)

lemma dispatch_user:
  "c \<noteq> [] \<Longrightarrow> dispatch_event str_of s (ev_user c) =
     s\<lparr> st_messages := st_messages s @
          [JObj ([(''role'', JStr ''user''), (''content'', JStr c)] @
                 (if outbound_image_names s \<noteq> []
                  then [(''images'', JList (map JStr (outbound_image_names s)))] else []))] \<rparr>"
  by (simp add: dispatch_message_event [OF ev_fields(3) ev_fields(4)] handle_message_def
        dict_get_def py_str_def)

lemma dispatch_assistant:
  "dispatch_event str_of s (ev_assistant c streaming) =
     (if streaming then s\<lparr> assistant_stream_content := c \<rparr> else s\<lparr> assistant_final_content := c \<rparr>)"
  by (simp add: dispatch_message_event [OF ev_fields(5) ev_fields(6)] handle_message_def
        dict_get_def py_str_def)

lemma dispatch_complete:
  "''complete'' \<in> completion_events s \<Longrightarrow>
   dispatch_event str_of s (ev_complete d) =
     ((if truthy (dict_get d ''sessionId'')
       then s\<lparr> st_session_id := Some (py_str str_of (dict_get d ''sessionId'')) \<rparr> else s)
      \<lparr> st_usage := (case dict_get d ''usage'' of JObj u \<Rightarrow> u | _ \<Rightarrow> st_usage s) \<rparr>)
      \<lparr> st_final_event := Some \<lparr> fe_type = ''complete'', fe_data = d, fe_request_id = JNull \<rparr>,
        completed_event := True \<rparr>"
  by (simp add: dispatch_complete_event [OF ev_fields(7) ev_fields(8)] ev_fields(9)
        mark_complete_terminal)


lemma build_generic_reset:
  assumes "st_pending_request s = None" "st_error s = None"
    "agent_list_data s = None" "agent_switched_data s = None" "rollback_result_data s = None"
  shows "status (build_result str_of s) = ''success'' \<and>
         messages (build_result str_of s) = st_messages s @
           (if assistant_content s \<noteq> []
            then [JObj [(''role'', JStr ''assistant''), (''content'', JStr (assistant_content s))]]
            else [])"
  using assms by (simp add: build_result_generic ClientResult_def)


lemma dispatch_agent_list:
  assumes ty: "dict_get event ''type'' = JStr ''agent_list''"
    and da: "dict_get event ''data'' = JObj d"
    and ls: "is_list (dict_get d ''agents'')"
  shows "dispatch_event str_of s event =
           mark_complete_if_needed (s\<lparr> agent_list_data := Some d, st_pending_request := None \<rparr>)
             ''agent_list'' d (dict_get event ''requestId'')"
  using ty da ls by (simp add: dispatch_event_def Let_def)

lemma build_result_status_cases:
  "st_pending_request s = None \<Longrightarrow>
   status (build_result str_of s) = ''error'' \<or> status (build_result str_of s) = ''success''"
  by (simp add: build_result_def split: option.splits)

text \<open>
  Claim C2. The events \<^verbatim>\<open>connected\<close>, a user message, an assistant message
  streaming \<^verbatim>\<open>a\<close>, an assistant message streaming \<^verbatim>\<open>ab\<close> and
  \<^verbatim>\<open>complete\<close>, handled in that order from the reset state of an operation whose
  terminal set contains \<^verbatim>\<open>complete\<close>, signal completion and give a result with
  status \<^verbatim>\<open>success\<close> whose messages are the user entry followed by one assistant
  entry with content \<^verbatim>\<open>ab\<close>: the later streaming write replaced the earlier.
  When a non-streaming assistant message with content \<open>f\<close> arrived as well, the
  assistant entry carries \<open>f\<close>. The user message has some text \<open>c\<close>; the handler
  keeps no user message without text.
\<close>

theorem streaming_last_write_wins:
  assumes c: "c \<noteq> []" and tm: "''complete'' \<in> evs"
  shows
    "(let s = foldl (dispatch_event str_of) (reset_runtime_state sid evs names)
                [ev_connected cid, ev_user c, ev_assistant ''a'' True, ev_assistant ''ab'' True,
                 ev_complete d];
          r = build_result str_of s
      in completed_event s \<and> status r = ''success'' \<and>
         messages r =
           [JObj ([(''role'', JStr ''user''), (''content'', JStr c)] @
                  (if names \<noteq> [] then [(''images'', JList (map JStr names))] else [])),
            JObj [(''role'', JStr ''assistant''), (''content'', JStr ''ab'')]]) \<and>
     (let s = foldl (dispatch_event str_of) (reset_runtime_state sid evs names)
                [ev_connected cid, ev_user c, ev_assistant f False, ev_assistant ''a'' True,
                 ev_assistant ''ab'' True, ev_complete d];
          r = build_result str_of s
      in f \<noteq> [] \<longrightarrow>
         messages r =
           [JObj ([(''role'', JStr ''user''), (''content'', JStr c)] @
                  (if names \<noteq> [] then [(''images'', JList (map JStr names))] else [])),
            JObj [(''role'', JStr ''assistant''), (''content'', JStr f)]])"
proof -
  let ?s0 = "reset_runtime_state sid evs names"
  let ?s2 = "dispatch_event str_of (dispatch_event str_of ?s0 (ev_connected cid)) (ev_user c)"
  let ?u = "JObj ([(''role'', JStr ''user''), (''content'', JStr c)] @
                  (if names \<noteq> [] then [(''images'', JList (map JStr names))] else []))"
  have s2: "?s2 = (if cid = [] then ?s0 else ?s0\<lparr> connection_id := Some cid \<rparr>)
                    \<lparr> connected_event := True, st_messages := [?u] \<rparr>"
    using c by (simp add: dispatch_connected dispatch_user reset_runtime_state_def)
  have f2: "completion_events ?s2 = evs" "st_pending_request ?s2 = None" "st_error ?s2 = None"
    "agent_list_data ?s2 = None" "agent_switched_data ?s2 = None" "rollback_result_data ?s2 = None"
    "st_messages ?s2 = [?u]" "assistant_final_content ?s2 = []"
    unfolding s2 by (simp_all add: reset_runtime_state_def)
  let ?a = "dispatch_event str_of (dispatch_event str_of ?s2 (ev_assistant ''a'' True))
              (ev_assistant ''ab'' True)"
  have a: "?a = ?s2\<lparr> assistant_stream_content := ''ab'' \<rparr>"
    by (simp add: dispatch_assistant)
  let ?e = "dispatch_event str_of ?a (ev_complete d)"
  have e: "completed_event ?e" "st_pending_request ?e = None" "st_error ?e = None"
    "agent_list_data ?e = None" "agent_switched_data ?e = None" "rollback_result_data ?e = None"
    "st_messages ?e = [?u]" "assistant_content ?e = ''ab''"
    using tm by (simp_all add: a dispatch_complete f2 assistant_content_def)
  have first: "completed_event ?e \<and> status (build_result str_of ?e) = ''success'' \<and>
               messages (build_result str_of ?e) =
                 [?u, JObj [(''role'', JStr ''assistant''), (''content'', JStr ''ab'')]]"
    using build_generic_reset [OF e(2-6), of str_of] e(1) e(7) e(8) by simp
  let ?b = "dispatch_event str_of (dispatch_event str_of
              (dispatch_event str_of ?s2 (ev_assistant f False)) (ev_assistant ''a'' True))
              (ev_assistant ''ab'' True)"
  have b: "?b = ?s2\<lparr> assistant_final_content := f, assistant_stream_content := ''ab'' \<rparr>"
    by (simp add: dispatch_assistant)
  let ?g = "dispatch_event str_of ?b (ev_complete d)"
  have g: "st_pending_request ?g = None" "st_error ?g = None"
    "agent_list_data ?g = None" "agent_switched_data ?g = None" "rollback_result_data ?g = None"
    "st_messages ?g = [?u]" "f \<noteq> [] \<Longrightarrow> assistant_content ?g = f"
    using tm by (simp_all add: b dispatch_complete f2 assistant_content_def)
  have second: "f \<noteq> [] \<longrightarrow> messages (build_result str_of ?g) =
                 [?u, JObj [(''role'', JStr ''assistant''), (''content'', JStr f)]]"
    using build_generic_reset [OF g(1-5), of str_of] g(6) g(7) by simp
  show ?thesis
    unfolding Let_def foldl_Cons foldl_Nil using first second by blast
qed


theorem streaming_last_write_wins_witness:
  "''hi'' \<noteq> [] \<and> ''complete'' \<in> {''complete'', ''error''} \<and>
   (let s = foldl (dispatch_event (\<lambda>v. [])) (reset_runtime_state None {''complete'', ''error''} [])
              [ev_connected ''c1'', ev_user ''hi'', ev_assistant ''a'' True, ev_assistant ''ab'' True,
               ev_complete []];
        r = build_result (\<lambda>v. []) s
    in completed_event s \<and> status r = ''success'' \<and>
       messages r =
         [JObj ([(''role'', JStr ''user''), (''content'', JStr ''hi'')] @
                (if ([]::string list) \<noteq> [] then [(''images'', JList (map JStr []))] else [])),
          JObj [(''role'', JStr ''assistant''), (''content'', JStr ''ab'')]])"
proof -
  have h1: "''hi'' \<noteq> []" by simp
  have h2: "''complete'' \<in> {''complete'', ''error''}" by simp
  show ?thesis
    by (rule conjI [OF h1 conjI [OF h2 conjunct1 [OF streaming_last_write_wins [OF h1 h2]]]])
qed




text \<open>
  Claim C10. Handling an \<^verbatim>\<open>agent_list\<close> event whose data has a list under
  \<^verbatim>\<open>agents\<close> leaves no pending interactive request, whatever was stored before;
  so the result built from the state it leaves has neither status
  \<^verbatim>\<open>requires_confirmation\<close> nor \<^verbatim>\<open>requires_question\<close>.
\<close>

theorem agent_list_clears_pending:
  assumes ty: "dict_get event ''type'' = JStr ''agent_list''"
    and da: "dict_get event ''data'' = JObj d"
    and ls: "is_list (dict_get d ''agents'')"
  shows "st_pending_request (dispatch_event str_of s event) = None \<and>
         status (build_result str_of (dispatch_event str_of s event)) \<noteq> ''requires_confirmation'' \<and>
         status (build_result str_of (dispatch_event str_of s event)) \<noteq> ''requires_question''"
proof -
  have p: "st_pending_request (dispatch_event str_of s event) = None"
    by (simp add: dispatch_agent_list [OF ty da ls])
  from build_result_status_cases [OF p, of str_of] show ?thesis
    using p by auto
qed


theorem agent_list_clears_pending_witness:
  "is_list (dict_get [(''agents'', JList [])] ''agents'') \<and>
   st_pending_request
     (dispatch_event (\<lambda>v. [])
        (dispatch_event (\<lambda>v. []) (reset_runtime_state None {''agent_list'', ''error''} [])
           [(''type'', JStr ''tool_confirmation_request''), (''data'', JObj [(''tool'', JStr ''bash'')])])
        [(''type'', JStr ''agent_list''), (''data'', JObj [(''agents'', JList [])])]) = None \<and>
   st_pending_request
     (dispatch_event (\<lambda>v. []) (reset_runtime_state None {''agent_list'', ''error''} [])
        [(''type'', JStr ''tool_confirmation_request''), (''data'', JObj [(''tool'', JStr ''bash'')])]) \<noteq> None"
proof -
  let ?s = "dispatch_event (\<lambda>v. []) (reset_runtime_state None {''agent_list'', ''error''} [])
        [(''type'', JStr ''tool_confirmation_request''), (''data'', JObj [(''tool'', JStr ''bash'')])]"
  let ?e = "[(''type'', JStr ''agent_list''), (''data'', JObj [(''agents'', JList [])])]"
  have l: "is_list (dict_get [(''agents'', JList [])] ''agents'')"
    by (simp add: dict_get_def)
  have e: "dict_get ?e ''type'' = JStr ''agent_list''"
    "dict_get ?e ''data'' = JObj [(''agents'', JList [])]"
    by (simp_all add: dict_get_def)
  have before: "st_pending_request ?s \<noteq> None"
    by (simp add: dispatch_event_def Let_def dict_get_def)
  from agent_list_clears_pending [OF e(1) e(2) l, of "\<lambda>v. []" ?s]
  have "st_pending_request (dispatch_event (\<lambda>v. []) ?s ?e) = None" by simp
  with l before show ?thesis by simp
qed

section \<open>Properties of the health check\<close>

text \<open>
  Claim C9, as stated: two health checks against an unreachable host give the same
  message, derived only from the configured host and port. The message also embeds
  the text of the URL error, so two failures with different texts give different
  messages.
\<close>

theorem health_check_message_differs:
  "message (health_check \<lparr> host = ''localhost'', port = 9001, connect_timeout = 30, request_timeout = 3600 \<rparr>
              (Inl (URLError ''<urlopen error timed out>''))) \<noteq>
   message (health_check \<lparr> host = ''localhost'', port = 9001, connect_timeout = 30, request_timeout = 3600 \<rparr>
              (Inl (URLError ''<urlopen error [Errno 111] Connection refused>'')))"
  by (simp add: health_check_def connection_failed_result_def ClientResult_def)

text \<open>
  Claim C9, amended. Two health checks whose request raises a URL error both give
  status \<^verbatim>\<open>error\<close>, error code \<^verbatim>\<open>connection_failed\<close> and the same suggestion,
  made from the configured port alone; each message is the text made from the
  configured host and port followed by the text of that call's URL error; the two
  results agree in every field other than the message.
\<close>

theorem health_check_unreachable:
  "(let r1 = health_check cfg (Inl (URLError t1)); r2 = health_check cfg (Inl (URLError t2)) in
    status r1 = ''error'' \<and> status r2 = ''error'' \<and>
    error_code r1 = JStr ''connection_failed'' \<and> error_code r2 = JStr ''connection_failed'' \<and>
    suggestion r1 = Some (msg_ensure_started @ dec_int (port cfg)) \<and>
    suggestion r2 = Some (msg_ensure_started @ dec_int (port cfg)) \<and>
    message r1 = JStr (msg_cannot_connect @ host cfg @ '':'' @ dec_int (port cfg) @ ''): '' @ t1) \<and>
    message r2 = JStr (msg_cannot_connect @ host cfg @ '':'' @ dec_int (port cfg) @ ''): '' @ t2) \<and>
    r1\<lparr> message := JNull \<rparr> = r2\<lparr> message := JNull \<rparr>)"
  by (simp add: health_check_def connection_failed_result_def ClientResult_def Let_def)

section \<open>Properties of the event stream reader\<close>



section \<open>Properties of the orchestrator\<close>

subsection \<open>The completion signal is never taken back\<close>

lemma completed_mark:
  "completed_event s \<Longrightarrow> completed_event (mark_complete_if_needed s ty d rid)"
  by (simp add: mark_complete_if_needed_def)

lemma completed_handle_message [simp]:
  "completed_event (handle_message str_of s d) = completed_event s"
  by (simp add: handle_message_def Let_def)

lemma completed_handle_error:
  "completed_event s \<Longrightarrow> completed_event (handle_error str_of s d rid)"
  by (simp add: handle_error_def Let_def completed_mark)

lemma completed_dispatch:
  assumes c: "completed_event s"
  shows "completed_event (dispatch_event str_of s event)"
proof (cases "if is_dict (dict_get event ''data'') then dict_get event ''data''
              else py_or (dict_get event ''data'') (JObj [])")
  case (JObj d)
  then show ?thesis using c
    by (simp add: dispatch_event_def Let_def completed_mark completed_handle_error)
qed (simp_all add: c dispatch_event_def Let_def completed_handle_error)

lemma completed_reader_failure: "completed_event (reader_failure s t)"
  by (simp add: reader_failure_def)

lemma completed_reader_step:
  assumes c: "completed_event (fst w)"
  shows "completed_event (fst (reader_step str_of loads w item))"
proof (cases item)
  case (Line raw)
  show ?thesis
  proof (cases "handle_data_block str_of loads (fst w) (join_lines (data_lines (snd w)))")
    case (Inl e)
    then show ?thesis using c Line
      by (simp add: reader_step_def Let_def completed_reader_failure)
  next
    case (Inr s')
    then have "completed_event s'" using c
      by (auto simp: handle_data_block_def completed_dispatch split: option.splits json.splits)
    then show ?thesis using c Line Inr
      by (simp add: reader_step_def Let_def)
  qed
next
  case (ReadFailure t)
  then show ?thesis using c by (simp add: reader_step_def Let_def completed_reader_failure)
next
  case EndOfStream
  then show ?thesis using c by (simp add: reader_step_def Let_def)
qed

lemma completed_feed:
  "completed_event (fst w) \<Longrightarrow> completed_event (fst (feed str_of loads w items))"
  unfolding feed_def
  by (induction items arbitrary: w) (simp_all add: completed_reader_step)

lemma after_ticks_Nil [simp]: "after_ticks ev w [] = w"
  by (simp add: after_ticks_def)

lemma after_ticks_Cons [simp]:
  "after_ticks ev w (t # ts) = after_ticks ev (feed (py_str_of ev) (json_loads ev) w (arrived t)) ts"
  by (simp add: after_ticks_def)

lemma after_ticks_append:
  "after_ticks ev w (xs @ ys) = after_ticks ev (after_ticks ev w xs) ys"
  by (simp add: after_ticks_def)

lemma completed_after_ticks:
  "completed_event (fst w) \<Longrightarrow> completed_event (fst (after_ticks ev w ts))"
  by (induction ts arbitrary: w) (simp_all add: completed_feed)

lemma poll_loop_quiet_prefix:
  assumes "\<forall>u\<in>set pre. now u < deadline \<and> \<not> post_done u"
    and "wait_sse \<longrightarrow> \<not> completed_event (fst (after_ticks ev w pre))"
  shows "poll_loop ev wait_sse deadline w checked n (pre @ rest) =
         poll_loop ev wait_sse deadline (after_ticks ev w pre) checked (n + length pre) rest"
  using assms
proof (induction pre arbitrary: w n)
  case Nil
  then show ?case by simp
next
  case (Cons t pre)
  let ?w1 = "feed (py_str_of ev) (json_loads ev) w (arrived t)"
  have nc: "\<not> (wait_sse \<and> completed_event (fst ?w1))"
    using Cons.prems(2) completed_after_ticks [of ?w1 ev pre] by auto
  have t: "now t < deadline" "\<not> post_done t" using Cons.prems(1) by auto
  have rest: "\<forall>u\<in>set pre. now u < deadline \<and> \<not> post_done u" using Cons.prems(1) by auto
  have later: "wait_sse \<longrightarrow> \<not> completed_event (fst (after_ticks ev ?w1 pre))"
    using Cons.prems(2) by simp
  have "poll_loop ev wait_sse deadline w checked n ((t # pre) @ rest) =
        poll_loop ev wait_sse deadline ?w1 checked (Suc n) (pre @ rest)"
    using t nc by (cases wait_sse) (simp_all add: Let_def)
  also have "\<dots> = poll_loop ev wait_sse deadline (after_ticks ev ?w1 pre) checked (Suc n + length pre) rest"
    by (rule Cons.IH [OF rest later])
  finally show ?case by simp
qed

subsection \<open>From the polling loop to the caller\<close>

lemma poll_loop_post_failure:
  assumes t: "now t < deadline" "post_done t"
    and nc: "\<not> completed_event (fst (feed (py_str_of ev) (json_loads ev) w (arrived t)))"
    and chk: "check_post_response (py_str_of ev) (post_response ev) = Some e"
  shows "poll_loop ev wait_sse deadline w False n (t # rest) =
           Some (Raised e, feed (py_str_of ev) (json_loads ev) w (arrived t), True, Suc n)"
  using t nc chk by (simp add: Let_def)

lemma run_from_ready:
  assumes "prepare_operation ev payload sid completion ensure_session names = Inr ready"
    and "post_and_wait cfg ev wait_sse ready = Some a"
  shows "run_message_operation cfg ev payload sid completion ensure_session names wait_sse =
           Some \<lparr> returned = (case at_outcome a of Inr r \<Rightarrow> Inr r
                               | Inl e \<Rightarrow> handle_exception cfg ev (fst (at_world a)) e),
                  effects = at_actions a @
                    snd (close_event_stream (at_world a) (at_response a) (at_sock a) (at_thread a)),
                  polls = at_polls a,
                  left_state =
                    fst (close_event_stream (at_world a) (at_response a) (at_sock a) (at_thread a)) \<rparr>"
  using assms by (simp add: run_message_operation_def attempt_operation_def Let_def)

lemma post_and_wait_raised:
  assumes "poll_loop ev wait_sse (clock_start ev + request_timeout cfg) w False 0 (ticks ev) =
             Some (Raised e, w1, checked, n)"
  shows "post_and_wait cfg ev wait_sse (payload, w, acts, hs) =
           Some \<lparr> at_outcome = Inl e, at_world = w1, at_actions = acts @ [PostMessage payload],
                  at_polls = n, at_response = True, at_sock = hs, at_thread = True \<rparr>"
  using assms by (simp add: post_and_wait_def Let_def)

lemma poll_loop_post_ok_nowait:
  assumes t: "now t < deadline" "post_done t"
    and chk: "check_post_response (py_str_of ev) (post_response ev) = None"
  shows "poll_loop ev False deadline w False n (t # rest) =
           Some (Break, feed (py_str_of ev) (json_loads ev) w (arrived t), True, Suc n)"
  using t chk by (simp add: Let_def)

lemma post_and_wait_break_checked:
  assumes "poll_loop ev wait_sse (clock_start ev + request_timeout cfg) w False 0 (ticks ev) =
             Some (Break, w1, True, n)"
  shows "post_and_wait cfg ev wait_sse (payload, w, acts, hs) =
           Some \<lparr> at_outcome = Inr (build_result (py_str_of ev)
                                      (fst (feed (py_str_of ev) (json_loads ev) w1 (before_result ev)))),
                  at_world = feed (py_str_of ev) (json_loads ev) w1 (before_result ev),
                  at_actions = acts @ [PostMessage payload],
                  at_polls = n, at_response = True, at_sock = hs, at_thread = True \<rparr>"
  using assms by (simp add: post_and_wait_def Let_def)

lemma returns_on_post_completion:
  assumes ready: "prepare_operation ev payload sid completion ensure_session names = Inr (p, w, acts, hs)"
    and ticks: "ticks ev = pre @ t # rest"
    and early: "\<forall>u\<in>set (pre @ [t]). now u < clock_start ev + request_timeout cfg"
    and first: "\<forall>u\<in>set pre. \<not> post_done u" and seen: "post_done t"
    and chk: "check_post_response (py_str_of ev) (post_response ev) = None"
  shows "\<exists>c. run_message_operation cfg ev payload sid completion ensure_session names False = Some c \<and>
           polls c = Suc (length pre) \<and>
           returned c = Inr (build_result (py_str_of ev)
             (fst (feed (py_str_of ev) (json_loads ev) (after_ticks ev w (pre @ [t])) (before_result ev))))"
proof -
  let ?dl = "clock_start ev + request_timeout cfg"
  let ?wp = "after_ticks ev w pre"
  let ?w1 = "feed (py_str_of ev) (json_loads ev) ?wp (arrived t)"
  have w1: "after_ticks ev w (pre @ [t]) = ?w1"
    by (simp add: after_ticks_append)
  have q: "\<forall>u\<in>set pre. now u < ?dl \<and> \<not> post_done u" using early first by simp
  have tt: "now t < ?dl" using early by simp
  have "poll_loop ev False ?dl w False 0 (ticks ev) =
          poll_loop ev False ?dl ?wp False (0 + length pre) (t # rest)"
    unfolding ticks using q by (intro poll_loop_quiet_prefix) simp_all
  also have "\<dots> = Some (Break, ?w1, True, Suc (length pre))"
    using poll_loop_post_ok_nowait [OF tt seen chk, of ?wp "length pre" rest] by simp
  finally have loop: "poll_loop ev False ?dl w False 0 (ticks ev) =
      Some (Break, ?w1, True, Suc (length pre))" .
  note a = post_and_wait_break_checked [OF loop, of p acts hs]
  note run = run_from_ready [OF ready a]
  show ?thesis
    unfolding run w1 by simp
qed

lemma poll_loop_never_completed:
  assumes chk: "check_post_response (py_str_of ev) (post_response ev) = None"
    and nc: "\<not> completed_event (fst (after_ticks ev w ts))"
  shows "poll_loop ev True deadline w checked n ts = None \<or>
         (\<exists>w' c' n'. poll_loop ev True deadline w checked n ts =
                        Some (Raised (TimeoutError msg_wait_timeout), w', c', n'))"
  using nc
proof (induction ts arbitrary: w checked n)
  case Nil
  then show ?case by simp
next
  case (Cons t ts)
  let ?w1 = "feed (py_str_of ev) (json_loads ev) w (arrived t)"
  have later: "\<not> completed_event (fst (after_ticks ev ?w1 ts))" using Cons.prems by simp
  then have nc1: "\<not> completed_event (fst ?w1)"
    using completed_after_ticks [of ?w1 ev ts] by blast
  show ?case
  proof (cases "deadline - now t \<le> 0")
    case True
    then show ?thesis by simp
  next
    case False
    then have "poll_loop ev True deadline w checked n (t # ts) =
                 poll_loop ev True deadline ?w1 (checked \<or> post_done t) (Suc n) ts"
      using nc1 chk by (auto simp: Let_def)
    then show ?thesis using Cons.IH [OF later] by simp
  qed
qed

lemma waits_for_completion:
  assumes ready: "prepare_operation ev payload sid completion ensure_session names = Inr (p, w, acts, hs)"
    and chk: "check_post_response (py_str_of ev) (post_response ev) = None"
    and nc: "\<not> completed_event (fst (after_ticks ev w (ticks ev)))"
    and run: "run_message_operation cfg ev payload sid completion ensure_session names True = Some c"
  shows "\<exists>res. returned c = Inr res \<and> status res = ''error'' \<and> error_code res = JStr ''timeout''"
proof -
  let ?dl = "clock_start ev + request_timeout cfg"
  from poll_loop_never_completed [OF chk nc, of ?dl False 0]
  show ?thesis
  proof
    assume "poll_loop ev True ?dl w False 0 (ticks ev) = None"
    then have "post_and_wait cfg ev True (p, w, acts, hs) = None"
      by (simp add: post_and_wait_def Let_def)
    then have "run_message_operation cfg ev payload sid completion ensure_session names True = None"
      using ready by (simp add: run_message_operation_def attempt_operation_def)
    then show ?thesis using run by simp
  next
    assume "\<exists>w' c' n'. poll_loop ev True ?dl w False 0 (ticks ev) =
                        Some (Raised (TimeoutError msg_wait_timeout), w', c', n')"
    then obtain w' c' n' where loop: "poll_loop ev True ?dl w False 0 (ticks ev) =
                        Some (Raised (TimeoutError msg_wait_timeout), w', c', n')" by blast
    note a = post_and_wait_raised [OF loop, of p acts hs]
    note r = run_from_ready [OF ready a]
    from run r show ?thesis
      by (auto simp: handle_exception_def ClientResult_def)
  qed
qed

subsection \<open>What happens before the command is posted\<close>

lemma bind_actions:
  "bind_session_to_connection ev w g = (r, w', acts) \<Longrightarrow> \<forall>a\<in>set acts. setup_action a"
  by (auto simp: bind_session_to_connection_def Let_def setup_action_def
           split: if_splits sum.splits option.splits)

lemma ensure_actions:
  "ensure_session_for_connection ev w = (r, w', acts) \<Longrightarrow> \<forall>a\<in>set acts. setup_action a"
  by (auto simp: ensure_session_for_connection_def Let_def setup_action_def
           split: if_splits sum.splits option.splits)

lemma prepare_early_actions:
  assumes "prepare_operation ev payload sid completion ensure_session names = Inl a"
  shows "\<forall>x\<in>set (at_actions a). setup_action x"
proof (cases "open_stream ev")
  case (Inl e)
  then show ?thesis using assms
    by (auto simp: prepare_operation_def ended_early_def setup_action_def)
next
  case (Inr hs)
  let ?w1 = "feed (py_str_of ev) (json_loads ev) (reset_runtime_state sid completion names, new_reader)
               (during_connect ev)"
  obtain r1 w1 a1 where b: "bind_session_to_connection ev ?w1 (case sid of Some g \<Rightarrow> g | None \<Rightarrow> []) = (r1, w1, a1)"
    by (metis prod_cases3)
  obtain r2 w2 a2 where e: "ensure_session_for_connection ev ?w1 = (r2, w2, a2)"
    by (metis prod_cases3)
  show ?thesis using assms Inr b e bind_actions [OF b] ensure_actions [OF e]
    by (auto simp: prepare_operation_def ended_early_def setup_action_def Let_def
             split: if_splits sum.splits)
qed

lemma prepare_ready_connected:
  assumes "prepare_operation ev payload sid completion ensure_session names = Inr x"
  shows "connected_event (fst (feed (py_str_of ev) (json_loads ev)
            (reset_runtime_state sid completion names, new_reader) (during_connect ev)))"
  using assms
  by (cases "open_stream ev") (auto simp: prepare_operation_def Let_def split: if_splits)

lemma close_actions:
  "\<forall>x\<in>set (snd (close_event_stream w r s t)). \<not> setup_action x \<and> (\<forall>q. x \<noteq> PostMessage q)"
  by (auto simp: close_event_stream_def setup_action_def)

lemma setup_not_post: "setup_action x \<Longrightarrow> x \<noteq> PostMessage q"
  by (auto simp: setup_action_def)

subsection \<open>The sample exchange\<close>

lemma feed_connected_lines:
  "feed sample_str_of sample_loads (reset_runtime_state sid evs names, new_reader) connected_lines =
     ((reset_runtime_state sid evs names)\<lparr> connected_event := True \<rparr>, new_reader)"
  by (simp add: feed_def connected_lines_def reader_step_def Let_def rstrip_crlf_def
      connected_text_def new_reader_def ascii_space_def space2_def space3_def
      handle_data_block_def sample_loads_def dispatch_event_def dict_get_def
      reset_runtime_state_def py_or_def error_true_text_def)

lemma sample_env_fields [simp]:
  "py_str_of (sample_env items post ts) = sample_str_of"
  "json_loads (sample_env items post ts) = sample_loads"
  "open_stream (sample_env items post ts) = Inr True"
  "during_connect (sample_env items post ts) = items"
  "post_response (sample_env items post ts) = post"
  "clock_start (sample_env items post ts) = 0"
  "ticks (sample_env items post ts) = ts"
  "post_done_after (sample_env items post ts) = False"
  "before_result (sample_env items post ts) = []"
  by (simp_all add: sample_env_def)

lemma sample_prepare:
  "prepare_operation (sample_env connected_lines post ts) payload None evs ens names =
     Inr (payload, ((reset_runtime_state None evs names)\<lparr> connected_event := True \<rparr>, new_reader),
          [OpenEventStream, StartReader], True)"
  by (simp add: prepare_operation_def Let_def feed_connected_lines
      ensure_session_for_connection_def no_connection_id_def)
     (simp add: reset_runtime_state_def)

lemma sample_prepare_bound:
  "prepare_operation (sample_env connected_lines post ts) payload (Some ''s1'') evs ens names =
     Inr (dict_set payload ''sessionId'' (JStr ''s1''),
          ((reset_runtime_state (Some ''s1'') evs names)\<lparr> connected_event := True \<rparr>, new_reader),
          [OpenEventStream, StartReader], True)"
  by (simp add: prepare_operation_def Let_def feed_connected_lines
      bind_session_to_connection_def no_connection_id_def)
     (simp add: reset_runtime_state_def)

section \<open>Properties of an operation\<close>

text \<open>
  Claim C3. When the stream opens and the reader has not handled a \<^verbatim>\<open>connected\<close>
  event by the end of the connect wait, the operation returns a result with status
  \<^verbatim>\<open>error\<close> and error code \<^verbatim>\<open>timeout\<close>, and its effects contain no POST of
  the command. In every run, the command is posted only if the \<^verbatim>\<open>connected\<close>
  signal was seen at the end of that wait.
\<close>

theorem no_connected_no_post:
  "(open_stream ev = Inr hs \<and>
    \<not> connected_event (fst (feed (py_str_of ev) (json_loads ev)
         (reset_runtime_state sid completion names, new_reader) (during_connect ev))) \<longrightarrow>
      (\<exists>c res. run_message_operation cfg ev payload sid completion ensure_session names wait_sse = Some c \<and>
         returned c = Inr res \<and> status res = ''error'' \<and> error_code res = JStr ''timeout'' \<and>
         message res = JStr msg_connect_timeout \<and>
         (\<forall>q. PostMessage q \<notin> set (effects c)))) \<and>
   (\<forall>c q. run_message_operation cfg ev payload sid completion ensure_session names wait_sse = Some c \<and>
          PostMessage q \<in> set (effects c) \<longrightarrow>
      connected_event (fst (feed (py_str_of ev) (json_loads ev)
         (reset_runtime_state sid completion names, new_reader) (during_connect ev))))"
proof (intro conjI impI allI)
  let ?w1 = "feed (py_str_of ev) (json_loads ev)
         (reset_runtime_state sid completion names, new_reader) (during_connect ev)"
  assume h: "open_stream ev = Inr hs \<and> \<not> connected_event (fst ?w1)"
  then have prep: "prepare_operation ev payload sid completion ensure_session names =
      Inl (ended_early (TimeoutError msg_connect_timeout) ?w1 [OpenEventStream, StartReader] True hs)"
    by (simp add: prepare_operation_def Let_def)
  show "\<exists>c res. run_message_operation cfg ev payload sid completion ensure_session names wait_sse = Some c \<and>
         returned c = Inr res \<and> status res = ''error'' \<and> error_code res = JStr ''timeout'' \<and>
         message res = JStr msg_connect_timeout \<and>
         (\<forall>q. PostMessage q \<notin> set (effects c))"
    by (simp add: run_message_operation_def attempt_operation_def prep ended_early_def
        handle_exception_def ClientResult_def close_event_stream_def Let_def)
next
  fix c q
  let ?w1 = "feed (py_str_of ev) (json_loads ev)
         (reset_runtime_state sid completion names, new_reader) (during_connect ev)"
  assume h: "run_message_operation cfg ev payload sid completion ensure_session names wait_sse = Some c \<and>
          PostMessage q \<in> set (effects c)"
  show "connected_event (fst ?w1)"
  proof (cases "prepare_operation ev payload sid completion ensure_session names")
    case (Inl a)
    then have "effects c = at_actions a @
        snd (close_event_stream (at_world a) (at_response a) (at_sock a) (at_thread a))"
      using h by (auto simp: run_message_operation_def attempt_operation_def Let_def)
    then have False
      using h prepare_early_actions [OF Inl] setup_not_post [of _ q]
        close_actions [of "at_world a" "at_response a" "at_sock a" "at_thread a"]
      by auto
    then show ?thesis ..
  next
    case (Inr x)
    then show ?thesis by (rule prepare_ready_connected)
  qed
qed


theorem no_connected_no_post_witness:
  "open_stream (sample_env [] (Inr (JObj [(''success'', JBool True)])) []) = Inr True \<and>
   \<not> connected_event (fst (feed sample_str_of sample_loads
        (reset_runtime_state None interactive_events [], new_reader) [])) \<and>
   (\<exists>c res. run_message_operation sample_config (sample_env [] (Inr (JObj [(''success'', JBool True)])) [])
        (chat_payload ''hi'' True) None interactive_events True [] True = Some c \<and>
      returned c = Inr res \<and> status res = ''error'' \<and> error_code res = JStr ''timeout'' \<and>
      message res = JStr msg_connect_timeout \<and>
      (\<forall>q. PostMessage q \<notin> set (effects c)))"
proof -
  let ?ev = "sample_env [] (Inr (JObj [(''success'', JBool True)])) []"
  have o: "open_stream ?ev = Inr True" by simp
  have n: "\<not> connected_event (fst (feed sample_str_of sample_loads
        (reset_runtime_state None interactive_events [], new_reader) []))"
    by (simp add: feed_def reset_runtime_state_def)
  have h: "open_stream ?ev = Inr True \<and>
    \<not> connected_event (fst (feed (py_str_of ?ev) (json_loads ?ev)
         (reset_runtime_state None interactive_events [], new_reader) (during_connect ?ev)))"
    using o n by simp
  from mp [OF conjunct1 [OF no_connected_no_post] h]
  show ?thesis using o n by blast
qed


text \<open>
  Claim C4. The operation waits for an SSE terminal event and has started the POST
  thread. In the turns \<open>pre\<close> of the polling loop the POST is not finished; in the
  turn \<open>t\<close> the loop sees it finished; all these turns are before the deadline, and
  the completion signal has not been set by the end of turn \<open>t\<close>. The POST returned
  a dict whose \<^verbatim>\<open>success\<close> is falsy. Then the operation returns a result with
  status \<^verbatim>\<open>error\<close> after exactly those turns, whatever the ticks that follow.
\<close>

theorem post_failure_returns_at_once:
  assumes ready: "prepare_operation ev payload sid completion ensure_session names = Inr (p, w, acts, hs)"
    and ticks: "ticks ev = pre @ t # rest"
    and early: "\<forall>u\<in>set (pre @ [t]). now u < clock_start ev + request_timeout cfg"
    and first: "\<forall>u\<in>set pre. \<not> post_done u" and seen: "post_done t"
    and nc: "\<not> completed_event (fst (after_ticks ev w (pre @ [t])))"
    and resp: "post_response ev = Inr (JObj r)" and failed: "\<not> truthy (dict_get r ''success'')"
  shows "\<exists>c res. run_message_operation cfg ev payload sid completion ensure_session names True = Some c \<and>
           polls c = Suc (length pre) \<and> returned c = Inr res \<and>
           status res = ''error'' \<and> error_code res = JStr ''unexpected_error'' \<and>
           message res = JStr (msg_send_failed @ py_str_of ev (JObj r))"
proof -
  let ?dl = "clock_start ev + request_timeout cfg"
  let ?wp = "after_ticks ev w pre"
  let ?w1 = "feed (py_str_of ev) (json_loads ev) ?wp (arrived t)"
  let ?e = "OtherError (msg_send_failed @ py_str_of ev (JObj r))"
  have w1: "after_ticks ev w (pre @ [t]) = ?w1"
    by (simp add: after_ticks_append)
  have nc1: "\<not> completed_event (fst ?w1)" using nc w1 by simp
  have ncp: "\<not> completed_event (fst ?wp)"
    using nc1 completed_feed [of ?wp "py_str_of ev" "json_loads ev" "arrived t"] by blast
  have q: "\<forall>u\<in>set pre. now u < ?dl \<and> \<not> post_done u" using early first by simp
  have chk: "check_post_response (py_str_of ev) (post_response ev) = Some ?e"
    using resp failed by (simp add: check_post_response_def py_str_def)
  have tt: "now t < ?dl" using early by simp
  have "poll_loop ev True ?dl w False 0 (ticks ev) =
          poll_loop ev True ?dl ?wp False (0 + length pre) (t # rest)"
    unfolding ticks using q ncp by (intro poll_loop_quiet_prefix) simp_all
  also have "\<dots> = Some (Raised ?e, ?w1, True, Suc (length pre))"
    using poll_loop_post_failure [OF tt seen nc1 chk, of True "length pre" rest] by simp
  finally have loop: "poll_loop ev True ?dl w False 0 (ticks ev) =
      Some (Raised ?e, ?w1, True, Suc (length pre))" .
  note a = post_and_wait_raised [OF loop, of p acts hs]
  note run = run_from_ready [OF ready a]
  show ?thesis
    unfolding run by (simp add: handle_exception_def ClientResult_def)
qed


theorem post_failure_returns_at_once_witness:
  "post_done \<lparr> now = 1, arrived = [], post_done = True \<rparr> \<and>
   \<not> truthy (dict_get [(''success'', JBool False)] ''success'') \<and>
   (\<exists>c res. run_message_operation sample_config
        (sample_env connected_lines (Inr (JObj [(''success'', JBool False)]))
           [\<lparr> now = 1, arrived = [], post_done = True \<rparr>])
        (switch_agent_payload ''a1'') None {''agent_switched'', ''error''} True [] True = Some c \<and>
      polls c = Suc (length ([] :: tick list)) \<and> returned c = Inr res \<and>
      status res = ''error'' \<and> error_code res = JStr ''unexpected_error'' \<and>
      message res = JStr (msg_send_failed @
        py_str_of (sample_env connected_lines (Inr (JObj [(''success'', JBool False)]))
           [\<lparr> now = 1, arrived = [], post_done = True \<rparr>]) (JObj [(''success'', JBool False)])))"
proof -
  let ?t = "\<lparr> now = 1, arrived = [], post_done = True \<rparr>"
  let ?ev = "sample_env connected_lines (Inr (JObj [(''success'', JBool False)])) [?t]"
  let ?w = "((reset_runtime_state None {''agent_switched'', ''error''} [])\<lparr> connected_event := True \<rparr>,
            new_reader)"
  have ready: "prepare_operation ?ev (switch_agent_payload ''a1'') None {''agent_switched'', ''error''} True [] =
      Inr (switch_agent_payload ''a1'', ?w, [OpenEventStream, StartReader], True)"
    by (rule sample_prepare)
  have ticks: "ticks ?ev = [] @ ?t # []" by simp
  have early: "\<forall>u\<in>set ([] @ [?t]). now u < clock_start ?ev + request_timeout sample_config"
    by (simp add: sample_config_def)
  have first: "\<forall>u\<in>set ([] :: tick list). \<not> post_done u" by simp
  have seen: "post_done ?t" by simp
  have nc: "\<not> completed_event (fst (after_ticks ?ev ?w ([] @ [?t])))"
    by (simp add: feed_def reset_runtime_state_def)
  have resp: "post_response ?ev = Inr (JObj [(''success'', JBool False)])" by simp
  have failed: "\<not> truthy (dict_get [(''success'', JBool False)] ''success'')"
    by (simp add: dict_get_def)
  from post_failure_returns_at_once [OF ready ticks early first seen nc resp failed]
  show ?thesis using seen failed by blast
qed

lemma check_post_ok:
  "post_response ev = Inr (JObj r) \<Longrightarrow> truthy (dict_get r ''success'') \<Longrightarrow>
   check_post_response (py_str_of ev) (post_response ev) = None"
  by (simp add: check_post_response_def)

text \<open>
  Claim C5. The POST of the command is seen finished, before the deadline, in the turn
  \<open>t\<close> of the polling loop and in no earlier turn, and it returned a dict with a
  truthy \<^verbatim>\<open>success\<close>. Then the tool-confirmation and the question-answer
  commands, once they have posted, leave the loop in that turn and return the result
  built from the state as it is, whether or not a terminal event has arrived. The
  chat, agent-switch and rollback commands do not return on that: when the completion
  signal is never set during the ticks, all they can return is the \<^verbatim>\<open>timeout\<close>
  error of the deadline.
\<close>

theorem fire_and_continue:
  assumes ticks: "ticks ev = pre @ t # rest"
    and early: "\<forall>u\<in>set (pre @ [t]). now u < clock_start ev + request_timeout cfg"
    and first: "\<forall>u\<in>set pre. \<not> post_done u" and seen: "post_done t"
    and resp: "post_response ev = Inr (JObj r)" and ok: "truthy (dict_get r ''success'')"
  shows
    "(\<forall>p w acts hs.
        prepare_operation ev (confirmation_payload rid approve) (Some sid) interactive_events False [] =
          Inr (p, w, acts, hs) \<longrightarrow>
        (\<exists>c. send_tool_confirmation cfg ev sid rid approve = Some c \<and> polls c = Suc (length pre) \<and>
             returned c = Inr (build_result (py_str_of ev)
               (fst (feed (py_str_of ev) (json_loads ev) (after_ticks ev w (pre @ [t]))
                      (before_result ev)))))) \<and>
     (\<forall>p w acts hs.
        prepare_operation ev (answer_payload rid answer_text) (Some sid) interactive_events False [] =
          Inr (p, w, acts, hs) \<longrightarrow>
        (\<exists>c. send_question_answer cfg ev sid rid answer_text = Some c \<and> polls c = Suc (length pre) \<and>
             returned c = Inr (build_result (py_str_of ev)
               (fst (feed (py_str_of ev) (json_loads ev) (after_ticks ev w (pre @ [t]))
                      (before_result ev)))))) \<and>
     (\<forall>p w acts hs c.
        prepare_operation ev (chat_payload content yolo_mode) chat_sid interactive_events True [] =
          Inr (p, w, acts, hs) \<and>
        \<not> completed_event (fst (after_ticks ev w (ticks ev))) \<and>
        send_chat cfg ev content chat_sid [] built yolo_mode = Inr (Some c) \<longrightarrow>
        (\<exists>res. returned c = Inr res \<and> status res = ''error'' \<and> error_code res = JStr ''timeout'')) \<and>
     (\<forall>p w acts hs c.
        prepare_operation ev (switch_agent_payload agent_id) switch_sid {''agent_switched'', ''error''} True [] =
          Inr (p, w, acts, hs) \<and>
        \<not> completed_event (fst (after_ticks ev w (ticks ev))) \<and>
        switch_agent cfg ev agent_id switch_sid = Some c \<longrightarrow>
        (\<exists>res. returned c = Inr res \<and> status res = ''error'' \<and> error_code res = JStr ''timeout'')) \<and>
     (\<forall>p w acts hs c.
        prepare_operation ev (rollback_payload message_index rollback_files selected_files) (Some sid)
          {''rollback_result'', ''error''} False [] = Inr (p, w, acts, hs) \<and>
        \<not> completed_event (fst (after_ticks ev w (ticks ev))) \<and>
        rollback_to cfg ev sid message_index rollback_files selected_files = Some c \<longrightarrow>
        (\<exists>res. returned c = Inr res \<and> status res = ''error'' \<and> error_code res = JStr ''timeout''))"
proof -
  note chk = check_post_ok [OF resp ok]
  have a: "\<forall>p w acts hs.
        prepare_operation ev (confirmation_payload rid approve) (Some sid) interactive_events False [] =
          Inr (p, w, acts, hs) \<longrightarrow>
        (\<exists>c. send_tool_confirmation cfg ev sid rid approve = Some c \<and> polls c = Suc (length pre) \<and>
             returned c = Inr (build_result (py_str_of ev)
               (fst (feed (py_str_of ev) (json_loads ev) (after_ticks ev w (pre @ [t]))
                      (before_result ev)))))"
    unfolding send_tool_confirmation_def
    using returns_on_post_completion [OF _ ticks early first seen chk] by blast
  have b: "\<forall>p w acts hs.
        prepare_operation ev (answer_payload rid answer_text) (Some sid) interactive_events False [] =
          Inr (p, w, acts, hs) \<longrightarrow>
        (\<exists>c. send_question_answer cfg ev sid rid answer_text = Some c \<and> polls c = Suc (length pre) \<and>
             returned c = Inr (build_result (py_str_of ev)
               (fst (feed (py_str_of ev) (json_loads ev) (after_ticks ev w (pre @ [t]))
                      (before_result ev)))))"
    unfolding send_question_answer_def
    using returns_on_post_completion [OF _ ticks early first seen chk] by blast
  have c: "\<forall>p w acts hs c.
        prepare_operation ev (chat_payload content yolo_mode) chat_sid interactive_events True [] =
          Inr (p, w, acts, hs) \<and>
        \<not> completed_event (fst (after_ticks ev w (ticks ev))) \<and>
        send_chat cfg ev content chat_sid [] built yolo_mode = Inr (Some c) \<longrightarrow>
        (\<exists>res. returned c = Inr res \<and> status res = ''error'' \<and> error_code res = JStr ''timeout'')"
    unfolding send_chat_def
    using waits_for_completion [OF _ chk] by auto
  have d: "\<forall>p w acts hs c.
        prepare_operation ev (switch_agent_payload agent_id) switch_sid {''agent_switched'', ''error''} True [] =
          Inr (p, w, acts, hs) \<and>
        \<not> completed_event (fst (after_ticks ev w (ticks ev))) \<and>
        switch_agent cfg ev agent_id switch_sid = Some c \<longrightarrow>
        (\<exists>res. returned c = Inr res \<and> status res = ''error'' \<and> error_code res = JStr ''timeout'')"
    unfolding switch_agent_def
    using waits_for_completion [OF _ chk] by blast
  have e: "\<forall>p w acts hs c.
        prepare_operation ev (rollback_payload message_index rollback_files selected_files) (Some sid)
          {''rollback_result'', ''error''} False [] = Inr (p, w, acts, hs) \<and>
        \<not> completed_event (fst (after_ticks ev w (ticks ev))) \<and>
        rollback_to cfg ev sid message_index rollback_files selected_files = Some c \<longrightarrow>
        (\<exists>res. returned c = Inr res \<and> status res = ''error'' \<and> error_code res = JStr ''timeout'')"
    unfolding rollback_to_def
    using waits_for_completion [OF _ chk] by blast
  from a b c d e show ?thesis by blast
qed


theorem fire_and_continue_witness:
  "post_done \<lparr> now = 1, arrived = [], post_done = True \<rparr> \<and>
   truthy (dict_get [(''success'', JBool True)] ''success'') \<and>
   (\<exists>c. send_tool_confirmation sample_config
          (sample_env connected_lines (Inr (JObj [(''success'', JBool True)]))
             [\<lparr> now = 1, arrived = [], post_done = True \<rparr>]) ''s1'' ''r1'' True = Some c \<and>
        polls c = Suc (length ([] :: tick list)) \<and>
        (\<exists>res. returned c = Inr res \<and> status res = ''success''))"
proof -
  let ?t = "\<lparr> now = 1, arrived = [], post_done = True \<rparr>"
  let ?ev = "sample_env connected_lines (Inr (JObj [(''success'', JBool True)])) [?t]"
  let ?w = "((reset_runtime_state (Some ''s1'') interactive_events [])\<lparr> connected_event := True \<rparr>,
            new_reader)"
  have ready: "prepare_operation ?ev (confirmation_payload ''r1'' True) (Some ''s1'') interactive_events False [] =
      Inr (dict_set (confirmation_payload ''r1'' True) ''sessionId'' (JStr ''s1''), ?w,
           [OpenEventStream, StartReader], True)"
    by (rule sample_prepare_bound)
  have ticks: "ticks ?ev = [] @ ?t # []" by simp
  have early: "\<forall>u\<in>set ([] @ [?t]). now u < clock_start ?ev + request_timeout sample_config"
    by (simp add: sample_config_def)
  have first: "\<forall>u\<in>set ([] :: tick list). \<not> post_done u" by simp
  have seen: "post_done ?t" by simp
  have resp: "post_response ?ev = Inr (JObj [(''success'', JBool True)])" by simp
  have ok: "truthy (dict_get [(''success'', JBool True)] ''success'')"
    by (simp add: dict_get_def)
  have st: "status (build_result (py_str_of ?ev)
               (fst (feed (py_str_of ?ev) (json_loads ?ev) (after_ticks ?ev ?w ([] @ [?t]))
                      (before_result ?ev)))) = ''success''"
    by (simp add: feed_def build_result_def reset_runtime_state_def final_event_is_def)
  from conjunct1 [OF fire_and_continue [OF ticks early first seen resp ok]] ready
  obtain c where c: "send_tool_confirmation sample_config ?ev ''s1'' ''r1'' True = Some c"
    "polls c = Suc (length ([] :: tick list))"
    "returned c = Inr (build_result (py_str_of ?ev)
               (fst (feed (py_str_of ?ev) (json_loads ?ev) (after_ticks ?ev ?w ([] @ [?t]))
                      (before_result ?ev))))"
    by blast
  then show ?thesis using seen ok st by blast
qed

subsection \<open>The pending request stays well formed throughout an operation\<close>

lemma pending_wf_reader_failure: "pending_wf s \<Longrightarrow> pending_wf (reader_failure s t)"
  by (simp add: pending_wf_def reader_failure_def)

lemma pending_wf_reader_step:
  assumes c: "pending_wf (fst w)"
  shows "pending_wf (fst (reader_step str_of loads w item))"
proof (cases item)
  case (Line raw)
  show ?thesis
  proof (cases "handle_data_block str_of loads (fst w) (join_lines (data_lines (snd w)))")
    case (Inl e)
    then show ?thesis using c Line
      by (simp add: reader_step_def Let_def pending_wf_reader_failure)
  next
    case (Inr s')
    then have "pending_wf s'" using c
      by (auto simp: handle_data_block_def pending_wf_dispatch split: option.splits json.splits)
    then show ?thesis using c Line Inr
      by (simp add: reader_step_def Let_def)
  qed
next
  case (ReadFailure t)
  then show ?thesis using c by (simp add: reader_step_def Let_def pending_wf_reader_failure)
next
  case EndOfStream
  then show ?thesis using c by (simp add: reader_step_def Let_def)
qed

lemma pending_wf_feed:
  "pending_wf (fst w) \<Longrightarrow> pending_wf (fst (feed str_of loads w items))"
  unfolding feed_def
  by (induction items arbitrary: w) (simp_all add: pending_wf_reader_step)

lemma pending_wf_session [simp]: "pending_wf (s\<lparr> st_session_id := x \<rparr>) = pending_wf s"
  by (simp add: pending_wf_def)

lemma pending_wf_bind:
  "bind_session_to_connection ev w g = (r, w', acts) \<Longrightarrow> pending_wf (fst w) \<Longrightarrow> pending_wf (fst w')"
  by (auto simp: bind_session_to_connection_def Let_def pending_wf_feed
           split: if_splits sum.splits option.splits)

lemma pending_wf_ensure:
  "ensure_session_for_connection ev w = (r, w', acts) \<Longrightarrow> pending_wf (fst w) \<Longrightarrow> pending_wf (fst w')"
  by (auto simp: ensure_session_for_connection_def Let_def pending_wf_feed
           split: if_splits sum.splits option.splits)

lemma pending_wf_poll_loop:
  "poll_loop ev wait_sse deadline w checked n ts = Some (x, w', c', n') \<Longrightarrow>
   pending_wf (fst w) \<Longrightarrow> pending_wf (fst w')"
proof (induction ts arbitrary: w checked n)
  case Nil
  then show ?case by simp
next
  case (Cons t ts)
  let ?w1 = "feed (py_str_of ev) (json_loads ev) w (arrived t)"
  have w1: "pending_wf (fst ?w1)" using Cons.prems(2) by (rule pending_wf_feed)
  show ?case
  proof (cases "deadline - now t \<le> 0")
    case True
    then show ?thesis using Cons.prems by simp
  next
    case False
    show ?thesis
    proof (cases "poll_loop ev wait_sse deadline w checked n (t # ts) =
                    poll_loop ev wait_sse deadline ?w1 (checked \<or> post_done t) (Suc n) ts")
      case True
      then show ?thesis using Cons.IH [OF _ w1] Cons.prems(1) by simp
    next
      case stop: False
      then have "w' = ?w1" using False Cons.prems(1)
        by (auto simp: Let_def split: if_splits option.splits)
      then show ?thesis using w1 by simp
    qed
  qed
qed

lemma pending_wf_attempt:
  assumes "attempt_operation cfg ev payload sid completion ensure_session names wait_sse = Some a"
  shows "pending_wf (fst (at_world a))"
proof -
  let ?w0 = "(reset_runtime_state sid completion names, new_reader)"
  let ?w1 = "feed (py_str_of ev) (json_loads ev) ?w0 (during_connect ev)"
  have w0: "pending_wf (fst ?w0)" by (simp add: pending_wf_reset)
  have w1: "pending_wf (fst ?w1)" using w0 by (rule pending_wf_feed)
  obtain r1 u1 a1 where b: "bind_session_to_connection ev ?w1 (case sid of Some g \<Rightarrow> g | None \<Rightarrow> []) = (r1, u1, a1)"
    by (metis prod_cases3)
  obtain r2 u2 a2 where e: "ensure_session_for_connection ev ?w1 = (r2, u2, a2)"
    by (metis prod_cases3)
  note u1 = pending_wf_bind [OF b w1] and u2 = pending_wf_ensure [OF e w1]
  show ?thesis
  proof (cases "prepare_operation ev payload sid completion ensure_session names")
    case (Inl a')
    then have "a' = a" using assms by (simp add: attempt_operation_def)
    then show ?thesis using Inl w0 w1 u1 u2 b e
      by (cases "open_stream ev")
         (auto simp: prepare_operation_def ended_early_def Let_def split: if_splits sum.splits)
  next
    case (Inr ready)
    obtain p w acts hs where r: "ready = (p, w, acts, hs)" by (metis prod_cases4)
    have w: "pending_wf (fst w)" using Inr r w1 u1 u2 b e
      by (cases "open_stream ev")
         (auto simp: prepare_operation_def Let_def split: if_splits sum.splits)
    have pw: "post_and_wait cfg ev wait_sse (p, w, acts, hs) = Some a"
      using assms Inr r by (simp add: attempt_operation_def)
    then obtain x w' c' n' where
      loop: "poll_loop ev wait_sse (clock_start ev + request_timeout cfg) w False 0 (ticks ev) =
               Some (x, w', c', n')"
      by (auto simp: post_and_wait_def Let_def split: option.splits)
    note w' = pending_wf_poll_loop [OF loop w]
    from pw loop have "at_world a = w' \<or> at_world a = feed (py_str_of ev) (json_loads ev) w' (before_result ev)"
      by (auto simp: post_and_wait_def Let_def split: option.splits loop_exit.splits)
    then show ?thesis using w' pending_wf_feed [OF w'] by auto
  qed
qed

subsection \<open>Teardown, termination and the exceptions that escape\<close>

lemma prepare_ready_actions:
  assumes "prepare_operation ev payload sid completion ensure_session names = Inr (p, w, acts, hs)"
  shows "\<forall>x\<in>set acts. setup_action x"
proof (cases "open_stream ev")
  case (Inl e)
  then show ?thesis using assms by (simp add: prepare_operation_def)
next
  case (Inr has_sock)
  let ?w1 = "feed (py_str_of ev) (json_loads ev) (reset_runtime_state sid completion names, new_reader)
               (during_connect ev)"
  obtain r1 w1 a1 where b: "bind_session_to_connection ev ?w1 (case sid of Some g \<Rightarrow> g | None \<Rightarrow> []) = (r1, w1, a1)"
    by (metis prod_cases3)
  obtain r2 w2 a2 where e: "ensure_session_for_connection ev ?w1 = (r2, w2, a2)"
    by (metis prod_cases3)
  show ?thesis using assms Inr b e bind_actions [OF b] ensure_actions [OF e]
    by (auto simp: prepare_operation_def setup_action_def Let_def split: if_splits sum.splits)
qed

lemma post_and_wait_actions:
  "post_and_wait cfg ev wait_sse (p, w, acts, hs) = Some a \<Longrightarrow> at_actions a = acts @ [PostMessage p]"
  by (auto simp: post_and_wait_def Let_def split: option.splits loop_exit.splits)

lemma attempt_actions:
  assumes "attempt_operation cfg ev payload sid completion ensure_session names wait_sse = Some a"
  shows "\<forall>x\<in>set (at_actions a). setup_action x \<or> (\<exists>q. x = PostMessage q)"
proof (cases "prepare_operation ev payload sid completion ensure_session names")
  case (Inl a')
  then have "a' = a" using assms by (simp add: attempt_operation_def)
  then show ?thesis using prepare_early_actions [OF Inl] by blast
next
  case (Inr ready)
  obtain p w acts hs where r: "ready = (p, w, acts, hs)" by (metis prod_cases4)
  have "post_and_wait cfg ev wait_sse (p, w, acts, hs) = Some a"
    using assms Inr r by (simp add: attempt_operation_def)
  from post_and_wait_actions [OF this] prepare_ready_actions [OF Inr [unfolded r]]
  show ?thesis by auto
qed

lemma teardown_runs_last:
  assumes "run_message_operation cfg ev payload sid completion ensure_session names wait_sse = Some c"
  shows "\<exists>pre tl. effects c = pre @ SetCompleted # tl \<and>
           (\<forall>x\<in>set pre. setup_action x \<or> (\<exists>q. x = PostMessage q)) \<and>
           set tl \<subseteq> {CloseSocket, JoinReader, CloseResponse} \<and>
           completed_event (fst (left_state c))"
proof -
  from assms obtain a where
    a: "attempt_operation cfg ev payload sid completion ensure_session names wait_sse = Some a"
    and c: "effects c = at_actions a @
              snd (close_event_stream (at_world a) (at_response a) (at_sock a) (at_thread a))"
       "left_state c = fst (close_event_stream (at_world a) (at_response a) (at_sock a) (at_thread a))"
    by (auto simp: run_message_operation_def Let_def split: option.splits)
  have "snd (close_event_stream (at_world a) (at_response a) (at_sock a) (at_thread a)) =
          SetCompleted # tl (snd (close_event_stream (at_world a) (at_response a) (at_sock a) (at_thread a)))"
    by (simp add: close_event_stream_def)
  moreover have "set (tl (snd (close_event_stream (at_world a) (at_response a) (at_sock a) (at_thread a))))
                  \<subseteq> {CloseSocket, JoinReader, CloseResponse}"
    by (auto simp: close_event_stream_def)
  moreover have "completed_event (fst (left_state c))"
    by (simp add: c close_event_stream_def)
  ultimately show ?thesis using attempt_actions [OF a] c(1) by metis
qed

lemma poll_loop_ends:
  "\<exists>u\<in>set ts. deadline \<le> now u \<Longrightarrow> poll_loop ev wait_sse deadline w checked n ts \<noteq> None"
proof (induction ts arbitrary: w checked n)
  case Nil
  then show ?case by simp
next
  case (Cons t ts)
  show ?case
  proof (cases "deadline \<le> now t")
    case True
    then show ?thesis by simp
  next
    case False
    then have "\<exists>u\<in>set ts. deadline \<le> now u" using Cons.prems by auto
    then have ih: "\<And>w' c' n'. poll_loop ev wait_sse deadline w' c' n' ts \<noteq> None"
      by (rule Cons.IH)
    show ?thesis using False ih
      by (cases wait_sse; cases "check_post_response (py_str_of ev) (post_response ev)")
         (auto simp: Let_def)
  qed
qed

lemma operation_returns:
  assumes "\<exists>u\<in>set (ticks ev). clock_start ev + request_timeout cfg \<le> now u"
  shows "run_message_operation cfg ev payload sid completion ensure_session names wait_sse \<noteq> None"
proof (cases "prepare_operation ev payload sid completion ensure_session names")
  case (Inl a)
  then show ?thesis by (simp add: run_message_operation_def attempt_operation_def Let_def)
next
  case (Inr ready)
  obtain p w acts hs where r: "ready = (p, w, acts, hs)" by (metis prod_cases4)
  from poll_loop_ends [OF assms, of ev wait_sse w False 0]
  have "post_and_wait cfg ev wait_sse (p, w, acts, hs) \<noteq> None"
    by (auto simp: post_and_wait_def Let_def split: option.splits loop_exit.splits)
  then show ?thesis using Inr r
    by (auto simp: run_message_operation_def attempt_operation_def Let_def)
qed

lemma escapes_only_from_http_handler:
  assumes "run_message_operation cfg ev payload sid completion ensure_session names wait_sse = Some c"
    and "returned c = Inl x"
  shows "\<exists>a h. attempt_operation cfg ev payload sid completion ensure_session names wait_sse = Some a \<and>
           at_outcome a = Inl (HTTPError h) \<and>
           http_error_to_result (py_str_of ev) (json_loads ev) cfg h = Inl x"
proof -
  from assms(1) obtain a where
    a: "attempt_operation cfg ev payload sid completion ensure_session names wait_sse = Some a"
    and c: "returned c = (case at_outcome a of Inr r \<Rightarrow> Inr r
                          | Inl e \<Rightarrow> handle_exception cfg ev (fst (at_world a)) e)"
    by (auto simp: run_message_operation_def Let_def split: option.splits)
  from c assms(2) obtain e where e: "at_outcome a = Inl e" "handle_exception cfg ev (fst (at_world a)) e = Inl x"
    by (cases "at_outcome a") auto
  then obtain h where "e = HTTPError h" "http_error_to_result (py_str_of ev) (json_loads ev) cfg h = Inl x"
    by (cases e) (auto simp: handle_exception_def)
  with a e show ?thesis by blast
qed

text \<open>
  Claim C7: every operation hands its caller exactly one result, and only after the
  stream has been torn down. The teardown is the last thing every run does
  (\<open>teardown_runs_last\<close>), and a run whose clock reaches the deadline ends
  (\<open>operation_returns\<close>). What reaches the caller is not always a result: the
  handler of HTTP errors tests the message taken from the error body for a substring,
  and when the body carries \<^verbatim>\<open>true\<close> or a number as its \<^verbatim>\<open>error\<close> this test
  raises inside the \<^verbatim>\<open>except\<close> clause (\<open>escapes_only_from_http_handler\<close> shows
  that this is the only way). Evaluated here: \<^verbatim>\<open>switch_agent\<close> when the server
  answers \<^verbatim>\<open>GET /events\<close> with status 500 and the body \<^verbatim>\<open>{"error": true}\<close>;
  the stream is torn down and a \<^verbatim>\<open>TypeError\<close> reaches the caller.
\<close>

theorem http_error_body_escapes:
  "map_option returned
     (switch_agent sample_config
        ((sample_env [] (Inl (URLError ''unused'')) [])
           \<lparr> open_stream := Inl (HTTPError \<lparr> he_code = 500, he_reason = ''Internal Server Error'',
                                            he_body = error_true_text \<rparr>) \<rparr>)
        ''a1'' None) =
     Some (Inl (OtherError (''argument of type '' @ [CHR 0x27] @ ''bool'' @ [CHR 0x27] @
                            '' is not iterable''))) \<and>
   map_option effects
     (switch_agent sample_config
        ((sample_env [] (Inl (URLError ''unused'')) [])
           \<lparr> open_stream := Inl (HTTPError \<lparr> he_code = 500, he_reason = ''Internal Server Error'',
                                            he_body = error_true_text \<rparr>) \<rparr>)
        ''a1'' None) =
     Some [OpenEventStream, SetCompleted]"
  by (simp add: switch_agent_def run_message_operation_def attempt_operation_def
      prepare_operation_def ended_early_def handle_exception_def http_error_to_result_def
      sample_env_def sample_loads_def error_true_text_def connected_text_def
      py_contains_def py_or_def dict_get_def close_event_stream_def Let_def)

end
